theory Spec2Isabelle
  imports Main "HOL-Library.Char_ord" "HOL-Library.List_Lexorder" "HOL-Library.AList"
begin

section \<open>A Binance API client: request dispatch and stream subscription\<close>

text \<open>
  The development embeds \<^verbatim>\<open>client/client.go\<close> (the request dispatcher \<^verbatim>\<open>Request\<close>,
  \<^verbatim>\<open>SignedRequest\<close> and the subscriber \<^verbatim>\<open>connect\<close>, \<^verbatim>\<open>Stream\<close>) and
  \<^verbatim>\<open>stream/client.go\<close> (\<^verbatim>\<open>Depth\<close>, \<^verbatim>\<open>Kline\<close>).

  Go strings are byte strings: \<open>string\<close> here, a list of 8-bit characters. A nil
  pointer dereference is the outcome \<open>Panic\<close>; \<^verbatim>\<open>log.Fatal\<close> is the session status
  \<open>Fatal\<close>. What the code obtains from its collaborators (the HTTP transport, the
  WebSocket transport, the JSON decoders of response bodies and stream messages,
  HMAC-SHA256, the clock, the URL parser) is taken as an argument, so every theorem
  holds for every behaviour of the collaborator. The functions of Go's \<^verbatim>\<open>net/url\<close>,
  \<^verbatim>\<open>encoding/hex\<close>, \<^verbatim>\<open>fmt\<close> and \<^verbatim>\<open>strings\<close> that shape the query string and the
  topic are written out, after the standard library, and so is what
  \<^verbatim>\<open>encoding/json\<close> does to the scalar values of a parameter bag. The two \<^verbatim>\<open>log.Printf\<close> lines before a request is built and the
  \<^verbatim>\<open>log.Println\<close> lines of the read loop change no result and are left out.
\<close>

type_synonym bytes = string

subsection \<open>Go standard library: \<^verbatim>\<open>strings\<close>, \<^verbatim>\<open>fmt\<close>, \<^verbatim>\<open>encoding/hex\<close>\<close>

definition isUpperASCII :: "char \<Rightarrow> bool" where
  "isUpperASCII c = (CHR ''A'' \<le> c \<and> c \<le> CHR ''Z'')"

definition lowerASCII :: "char \<Rightarrow> char" where
  \<comment> \<open>\<^verbatim>\<open>c += 'a' - 'A'\<close> for an upper-case ASCII letter\<close>
  "lowerASCII c = (if isUpperASCII c then char_of (of_char c + (32::nat)) else c)"

definition isASCII :: "string \<Rightarrow> bool" where
  \<comment> \<open>no byte is \<^verbatim>\<open>>= utf8.RuneSelf\<close> (0x80)\<close>
  "isASCII s = list_all (\<lambda>c. (of_char c :: nat) < 128) s"

definition ToLower :: "(string \<Rightarrow> string) \<Rightarrow> string \<Rightarrow> string" where
  \<comment> \<open>\<^verbatim>\<open>strings.ToLower\<close>: the byte-wise path for an ASCII string, else
      \<^verbatim>\<open>Map(unicode.ToLower, s)\<close>, which is the argument \<open>unicodeLower\<close>.\<close>
  "ToLower unicodeLower s = (if isASCII s then map lowerASCII s else unicodeLower s)"

definition digits :: string where
  "digits = ''0123456789''"

function show_nat :: "nat \<Rightarrow> string" where
  "show_nat n =
     (if n < 10 then [digits ! n]
      else show_nat (n div 10) @ [digits ! (n mod 10)])"
  by pat_completeness auto
termination
  by (relation "measure id") auto

declare show_nat.simps [simp del]

definition Sprint_int64 :: "int \<Rightarrow> string" where
  \<comment> \<open>\<^verbatim>\<open>fmt.Sprintf("%v", x)\<close> for an \<^verbatim>\<open>int64\<close>: signed decimal\<close>
  "Sprint_int64 x = (if x < 0 then CHR ''-'' # show_nat (nat (- x)) else show_nat (nat x))"

text \<open>
  \<^verbatim>\<open>fmt.Sprintf("%v", f)\<close> for a \<^verbatim>\<open>float64\<close> is \<^verbatim>\<open>strconv\<close>'s format \<^verbatim>\<open>'g'\<close> with
  the shortest digits that give the number back. For a float that holds an integer of
  magnitude at most \<open>2^53\<close> these are its decimal digits without the zeros at the end
  (\<^verbatim>\<open>digs.d[:digs.nd]\<close>), and \<^verbatim>\<open>digs.dp\<close> is the number of its decimal digits. With the
  shortest digits \<^verbatim>\<open>eprec\<close> is 6: an exponent \<^verbatim>\<open>digs.dp - 1\<close> of 6 or more is written
  by \<^verbatim>\<open>fmtE\<close>, a smaller one by \<^verbatim>\<open>fmtF\<close> with no fraction.
\<close>

definition strip_zeros :: "string \<Rightarrow> string" where
  "strip_zeros ds = rev (dropWhile (\<lambda>c. c = CHR ''0'') (rev ds))"

definition exp_digits :: "nat \<Rightarrow> string" where
  \<comment> \<open>the end of \<^verbatim>\<open>fmtE\<close>: \<^verbatim>\<open>dd\<close> or \<^verbatim>\<open>ddd\<close>\<close>
  "exp_digits e =
     (if e < 10 then [CHR ''0'', digits ! e]
      else if e < 100 then [digits ! (e div 10), digits ! (e mod 10)]
      else [digits ! (e div 100), digits ! (e div 10 mod 10), digits ! (e mod 10)])"

definition fmtE :: "string \<Rightarrow> nat \<Rightarrow> string" where
  \<comment> \<open>\<^verbatim>\<open>fmtE\<close> at the precision \<^verbatim>\<open>digs.nd - 1\<close>, for an exponent that is not negative:
      first digit, \<^verbatim>\<open>.\<close> and the other digits if there are any, \<^verbatim>\<open>e+\<close>, exponent\<close>
  "fmtE ds e =
     (case ds of
        [] \<Rightarrow> ''0''
      | c # cs \<Rightarrow> c # (if cs = [] then [] else CHR ''.'' # cs))
     @ ''e+'' @ exp_digits e"

definition Sprint_float64 :: "int \<Rightarrow> string" where
  \<comment> \<open>\<^verbatim>\<open>fmt.Sprintf("%v", f)\<close> for a \<^verbatim>\<open>float64\<close> that holds the integer \<open>n\<close>,
      \<open>\<bar>n\<bar> \<le> 2^53\<close>\<close>
  "Sprint_float64 n =
     (let ds = show_nat (nat \<bar>n\<bar>);
          dp = (if n = 0 then 0 else length ds)
      in (if n < 0 then ''-'' else [])
         @ (if 6 < dp then fmtE (strip_zeros ds) (dp - 1) else ds))"

definition int64 :: "int \<Rightarrow> int" where
  \<comment> \<open>the value an \<^verbatim>\<open>int64\<close> holds after an arithmetic result \<open>x\<close>: two's complement wrap-around\<close>
  "int64 x = (x + 2 ^ 63) mod 2 ^ 64 - 2 ^ 63"

definition lowerhex :: "nat \<Rightarrow> char" where
  \<comment> \<open>\<^verbatim>\<open>hextable[n]\<close>, for a nibble \<open>n\<close>\<close>
  "lowerhex n = ''0123456789abcdef'' ! n"

definition upperhex :: "nat \<Rightarrow> char" where
  \<comment> \<open>\<^verbatim>\<open>upperhex[n]\<close>, for a nibble \<open>n\<close>\<close>
  "upperhex n = ''0123456789ABCDEF'' ! n"

definition EncodeToString :: "bytes \<Rightarrow> string" where
  \<comment> \<open>\<^verbatim>\<open>hex.EncodeToString\<close>: two lower-case digits a byte, high nibble first\<close>
  "EncodeToString src =
     concat (map (\<lambda>b. [lowerhex (of_char b div 16), lowerhex (of_char b mod 16)]) src)"

definition unhex :: "char \<Rightarrow> nat option" where
  \<comment> \<open>the value of a hexadecimal digit, of either case (\<^verbatim>\<open>unhex\<close> in \<^verbatim>\<open>net/url\<close>,
      \<^verbatim>\<open>fromHexChar\<close> in \<^verbatim>\<open>encoding/hex\<close>)\<close>
  "unhex c =
     (if CHR ''0'' \<le> c \<and> c \<le> CHR ''9'' then Some (of_char c - 48)
      else if CHR ''a'' \<le> c \<and> c \<le> CHR ''f'' then Some (of_char c - 97 + 10)
      else if CHR ''A'' \<le> c \<and> c \<le> CHR ''F'' then Some (of_char c - 65 + 10)
      else None)"

fun DecodeString :: "string \<Rightarrow> bytes option" where
  \<comment> \<open>\<^verbatim>\<open>hex.DecodeString\<close>, what reads a signature back; \<open>None\<close> for an odd length
      or a character that is no digit\<close>
  "DecodeString [] = Some []"
| "DecodeString [c] = None"
| "DecodeString (c1 # c2 # r) =
     (case (unhex c1, unhex c2) of
        (Some a, Some b) \<Rightarrow> map_option ((#) (char_of (16 * a + b))) (DecodeString r)
      | _ \<Rightarrow> None)"

subsection \<open>Go standard library: \<^verbatim>\<open>net/url\<close>\<close>

text \<open>
  \<^verbatim>\<open>url.Values\<close> is \<^verbatim>\<open>map[string][]string\<close>: an association list, read through
  \<open>map_of\<close>. \<^verbatim>\<open>Encode\<close> sorts the keys, so the order of the list never shows.
\<close>

type_synonym Values = "(string \<times> string list) list"

definition Values_Get_all :: "Values \<Rightarrow> string \<Rightarrow> string list" where
  \<comment> \<open>\<^verbatim>\<open>v[key]\<close>: the nil slice for a missing key\<close>
  "Values_Get_all q k = (case map_of q k of None \<Rightarrow> [] | Some vs \<Rightarrow> vs)"

definition Values_Set :: "string \<Rightarrow> string \<Rightarrow> Values \<Rightarrow> Values" where
  \<comment> \<open>\<^verbatim>\<open>v[key] = []string{value}\<close>\<close>
  "Values_Set k v q = AList.update k [v] q"

definition Values_Add :: "string \<Rightarrow> string \<Rightarrow> Values \<Rightarrow> Values" where
  \<comment> \<open>\<^verbatim>\<open>v[key] = append(v[key], value)\<close>\<close>
  "Values_Add k v q = AList.update k (Values_Get_all q k @ [v]) q"

definition isAlnum :: "char \<Rightarrow> bool" where
  "isAlnum c = ((CHR ''a'' \<le> c \<and> c \<le> CHR ''z'') \<or> (CHR ''A'' \<le> c \<and> c \<le> CHR ''Z'')
                \<or> (CHR ''0'' \<le> c \<and> c \<le> CHR ''9''))"

definition shouldEscape :: "char \<Rightarrow> bool" where
  \<comment> \<open>mode \<^verbatim>\<open>encodeQueryComponent\<close>: letters, digits and \<^verbatim>\<open>-_.~\<close> stay\<close>
  "shouldEscape c =
     (\<not> (isAlnum c \<or> c = CHR ''-'' \<or> c = CHR ''_'' \<or> c = CHR ''.'' \<or> c = CHR ''~''))"

definition escape_byte :: "char \<Rightarrow> string" where
  "escape_byte c =
     (if shouldEscape c then
        (if c = CHR '' '' then ''+''
         else [CHR ''%'', upperhex (of_char c div 16), upperhex (of_char c mod 16)])
      else [c])"

definition QueryEscape :: "string \<Rightarrow> string" where
  "QueryEscape s = concat (map escape_byte s)"

fun QueryUnescape :: "string \<Rightarrow> string option" where
  "QueryUnescape [] = Some []"
| "QueryUnescape (c # s) =
     (if c = CHR ''%'' then
        (case s of
           h1 # h2 # r \<Rightarrow>
             (case (unhex h1, unhex h2) of
                (Some a, Some b) \<Rightarrow> map_option ((#) (char_of (16 * a + b))) (QueryUnescape r)
              | _ \<Rightarrow> None)
         | _ \<Rightarrow> None)
      else map_option ((#) (if c = CHR ''+'' then CHR '' '' else c)) (QueryUnescape s))"

definition write_pair :: "string \<Rightarrow> string \<Rightarrow> string" where
  \<comment> \<open>one round of the inner loop of \<^verbatim>\<open>Encode\<close>: \<^verbatim>\<open>&\<close> unless the buffer is empty\<close>
  "write_pair buf kv = (if buf = [] then kv else buf @ ''&'' @ kv)"

definition Encode :: "Values \<Rightarrow> string" where
  \<comment> \<open>\<^verbatim>\<open>Values.Encode\<close>: keys sorted, each value as \<^verbatim>\<open>key=value\<close>, both escaped\<close>
  "Encode q =
     foldl write_pair []
       (concat (map (\<lambda>k. map (\<lambda>v. QueryEscape k @ ''='' @ QueryEscape v) (Values_Get_all q k))
                    (sort (remdups (map fst q)))))"

text \<open>
  For the proofs: one pair as \<^verbatim>\<open>Encode\<close> writes it, and the pairs of a \<open>Values\<close> in
  the order \<^verbatim>\<open>Encode\<close> writes them.
\<close>

definition encode_pair :: "string \<times> string \<Rightarrow> string" where
  "encode_pair p = QueryEscape (fst p) @ ''='' @ QueryEscape (snd p)"

definition query_pairs :: "Values \<Rightarrow> (string \<times> string) list" where
  "query_pairs q =
     concat (map (\<lambda>k. map (Pair k) (Values_Get_all q k)) (sort (remdups (map fst q))))"

fun split_on :: "char \<Rightarrow> string \<Rightarrow> string list" where
  "split_on c [] = [[]]"
| "split_on c (x # xs) =
     (if x = c then [] # split_on c xs
      else (case split_on c xs of [] \<Rightarrow> [[x]] | y # ys \<Rightarrow> (x # y) # ys))"

definition Cut :: "char \<Rightarrow> string \<Rightarrow> string \<times> string" where
  \<comment> \<open>\<^verbatim>\<open>strings.Cut\<close> at the first separator; all of \<open>s\<close> and the empty string without one\<close>
  "Cut c s = (takeWhile (\<lambda>x. x \<noteq> c) s, drop 1 (dropWhile (\<lambda>x. x \<noteq> c) s))"

definition last_parameter :: "string \<Rightarrow> string \<times> string" where
  \<comment> \<open>a query string cut at its last \<^verbatim>\<open>&\<close>: what precedes the last parameter, and the
      last parameter\<close>
  "last_parameter query = (case Cut CHR ''&'' (rev query) of (l, r) \<Rightarrow> (rev r, rev l))"

definition parse_pair :: "string \<Rightarrow> Values \<Rightarrow> Values" where
  \<comment> \<open>one round of the loop of \<^verbatim>\<open>parseQuery\<close>; a pair it rejects (a semicolon in it,
      since Go 1.17, or a bad escape) is skipped\<close>
  "parse_pair kv m =
     (if CHR '';'' \<in> set kv then m
      else if kv = [] then m
      else (case Cut CHR ''='' kv of
              (k, v) \<Rightarrow>
                (case QueryUnescape k of
                   None \<Rightarrow> m
                 | Some key \<Rightarrow>
                     (case QueryUnescape v of
                        None \<Rightarrow> m
                      | Some val \<Rightarrow> Values_Add key val m))))"

definition ParseQuery :: "string \<Rightarrow> Values" where
  \<comment> \<open>\<^verbatim>\<open>url.ParseQuery\<close>, its error dropped as \<^verbatim>\<open>URL.Query\<close> does\<close>
  "ParseQuery query = fold parse_pair (split_on CHR ''&'' query) []"

record url =
  Base :: string  \<comment> \<open>scheme, user and host, as parsed\<close>
  Path :: string
  RawQuery :: string

definition Query :: "url \<Rightarrow> Values" where
  "Query u = ParseQuery (RawQuery u)"

subsection \<open>Package \<^verbatim>\<open>client\<close>: data\<close>

record request =
  Method :: string
  Target :: url
  Header :: "(string \<times> string) list"  \<comment> \<open>the \<^verbatim>\<open>Header.Add\<close> calls, in order\<close>

record response =
  StatusCode :: int
  Body :: bytes

text \<open>
  \<^verbatim>\<open>HTTPClient\<close> is a pointer, \<open>None\<close> when nil. \<^verbatim>\<open>Do\<close> returns a response, which
  is nil or not, and an error, which is nil or not.
\<close>

record API =
  URL :: string
  Key :: string
  SecretKey :: string
  HTTPClient :: "(request \<Rightarrow> response option \<times> string option) option"
  UserAgent :: string
  AutoReconnect :: bool

definition ReconnectLimit :: nat where
  "ReconnectLimit = 10"

definition New ::
  "string \<Rightarrow> string \<Rightarrow> string \<Rightarrow> (request \<Rightarrow> response option \<times> string option) option
     \<Rightarrow> string \<Rightarrow> API" where
  "New url key secretKey httpClient userAgent =
     \<lparr>URL = url, Key = key, SecretKey = secretKey, HTTPClient = httpClient,
      UserAgent = userAgent, AutoReconnect = True\<rparr>"

text \<open>
  An error value is told by where it was made: \<^verbatim>\<open>errors.New\<close> in this package, the
  transport's \<^verbatim>\<open>Do\<close>, or the JSON decoder.
\<close>

datatype error = errors_New string | TransportError string | DecodeError string

record binanceError =
  Code :: int
  Msg :: string

record Time =
  sec :: int   \<comment> \<open>whole seconds since the Unix epoch\<close>
  nsec :: nat  \<comment> \<open>nanoseconds within the second, below \<open>10^9\<close>\<close>

definition Unix :: "Time \<Rightarrow> int" where
  "Unix t = sec t"

definition UnixMilli :: "Time \<Rightarrow> int" where
  \<comment> \<open>the time in milliseconds since the Unix epoch\<close>
  "UnixMilli t = sec t * 1000 + int (nsec t div 1000000)"

text \<open>
  A parameter bag is the members of the JSON object that \<^verbatim>\<open>json.Marshal\<close> writes for
  \<^verbatim>\<open>params\<close>, in its order: a key and a Go value each. The model looks into the scalar
  values: \<open>GoInt n\<close> is a value of an integer type, \<open>GoFloat n\<close> a \<^verbatim>\<open>float64\<close> that
  holds the integer \<open>n\<close>. Every other value (a float with a fraction, a slice, a map,
  a struct) is a \<open>GoOther\<close>, and what JSON and \<^verbatim>\<open>fmt\<close> make of it is asked of the
  collaborators.
\<close>

datatype 'x goval = GoNil | GoBool bool | GoInt int | GoFloat int | GoString string | GoOther 'x

text \<open>
  The collaborators of the dispatcher. \<open>toValidUTF8\<close> is the coercion \<^verbatim>\<open>json.Marshal\<close>
  applies to a string with a byte beyond ASCII; \<open>Marshal_ok\<close> tells whether
  \<^verbatim>\<open>json.Marshal\<close> accepts a value, \<open>json_other\<close> is the value \<^verbatim>\<open>json.Unmarshal\<close> gives
  back for it, \<open>Sprint_other\<close> its \<^verbatim>\<open>fmt.Sprintf("%v", v)\<close>; \<open>float64_of_int\<close> is the
  \<^verbatim>\<open>float64\<close> next to an integer beyond \<open>2^53\<close>. \<open>NewRequest_ok\<close> tells whether
  \<^verbatim>\<open>http.NewRequest\<close> accepts the method and the URL. A decoder takes the body and the
  value it decodes into, and gives the value it leaves there and its error.
\<close>

record ('x, 'o) deps =
  ParseRequestURI :: "string \<Rightarrow> url option"
  toValidUTF8 :: "string \<Rightarrow> string"
  Marshal_ok :: "'x \<Rightarrow> bool"
  json_other :: "'x \<Rightarrow> 'x goval"
  float64_of_int :: "int \<Rightarrow> 'x"
  Sprint_other :: "'x \<Rightarrow> string"
  NewRequest_ok :: "string \<Rightarrow> url \<Rightarrow> bool"
  Decode_binanceError :: "bytes \<Rightarrow> binanceError \<Rightarrow> binanceError \<times> string option"
  Decode_out :: "bytes \<Rightarrow> 'o \<Rightarrow> 'o \<times> string option"
  hmac_sha256 :: "bytes \<Rightarrow> bytes \<Rightarrow> bytes"  \<comment> \<open>key, then message\<close>
  Now :: Time

subsection \<open>Lines 52 to 54 and 92 to 94: the parameters through JSON\<close>

definition exact_float :: "int \<Rightarrow> bool" where
  \<comment> \<open>every integer of this magnitude is a \<^verbatim>\<open>float64\<close>\<close>
  "exact_float n = (\<bar>n\<bar> \<le> 2 ^ 53)"

definition json_string :: "('x, 'o) deps \<Rightarrow> string \<Rightarrow> string" where
  \<comment> \<open>a string written by \<^verbatim>\<open>json.Marshal\<close> and read back\<close>
  "json_string d s = (if isASCII s then s else toValidUTF8 d s)"

definition json_value :: "('x, 'o) deps \<Rightarrow> 'x goval \<Rightarrow> 'x goval" where
  \<comment> \<open>a value written by \<^verbatim>\<open>json.Marshal\<close> and read back into an \<^verbatim>\<open>interface{}\<close>: every
      JSON number comes back as a \<^verbatim>\<open>float64\<close>\<close>
  "json_value d v =
     (case v of
        GoNil \<Rightarrow> GoNil
      | GoBool b \<Rightarrow> GoBool b
      | GoInt n \<Rightarrow> if exact_float n then GoFloat n else GoOther (float64_of_int d n)
      | GoFloat n \<Rightarrow> GoFloat n
      | GoString s \<Rightarrow> GoString (json_string d s)
      | GoOther x \<Rightarrow> json_other d x)"

definition Marshal_value_ok :: "('x, 'o) deps \<Rightarrow> 'x goval \<Rightarrow> bool" where
  "Marshal_value_ok d v = (case v of GoOther x \<Rightarrow> Marshal_ok d x | _ \<Rightarrow> True)"

definition json_to_map ::
  "('x, 'o) deps \<Rightarrow> (string \<times> 'x goval) list \<Rightarrow> (string \<times> 'x goval) list" where
  \<comment> \<open>\<^verbatim>\<open>b, _ := json.Marshal(params); m := map[string]interface{}{}; json.Unmarshal(b, &m)\<close>:
      when \<^verbatim>\<open>Marshal\<close> fails \<^verbatim>\<open>b\<close> is empty and \<^verbatim>\<open>m\<close> stays empty; else each member is
      stored under its key, a later one over an earlier one. The list is \<^verbatim>\<open>m\<close> in the
      order the \<^verbatim>\<open>range\<close> loop meets its entries.\<close>
  "json_to_map d params =
     (if list_all (\<lambda>(k, v). Marshal_value_ok d v) params
      then fold (\<lambda>(k, v). AList.update (json_string d k) (json_value d v)) params []
      else [])"

definition Sprint :: "('x, 'o) deps \<Rightarrow> 'x goval \<Rightarrow> string" where
  \<comment> \<open>\<^verbatim>\<open>fmt.Sprintf("%v", v)\<close>\<close>
  "Sprint d v =
     (case v of
        GoNil \<Rightarrow> ''<nil>''
      | GoBool b \<Rightarrow> if b then ''true'' else ''false''
      | GoInt n \<Rightarrow> Sprint_int64 n
      | GoFloat n \<Rightarrow>
          if exact_float n then Sprint_float64 n else Sprint_other d (float64_of_int d n)
      | GoString s \<Rightarrow> s
      | GoOther x \<Rightarrow> Sprint_other d x)"

text \<open>What a call does: it panics, or it returns its error and leaves \<^verbatim>\<open>out\<close>.\<close>

datatype 'o result = Panic | Return "error option" "'o option"

subsection \<open>Package \<^verbatim>\<open>client\<close>: \<^verbatim>\<open>Request\<close> and \<^verbatim>\<open>SignedRequest\<close>\<close>

definition resolve :: "('x, 'o) deps \<Rightarrow> API \<Rightarrow> string \<Rightarrow> url option" where
  \<comment> \<open>lines 47 and 48 (88 and 89): the parse error is dropped, so a URL that does not parse
      leaves a nil pointer and \<^verbatim>\<open>url.Path\<close> panics: \<open>None\<close>\<close>
  "resolve d a endpoint =
     (case ParseRequestURI d (URL a) of
        None \<Rightarrow> None
      | Some u \<Rightarrow> Some (u\<lparr>Path := Path u @ endpoint\<rparr>))"

definition set_params ::
  "('x, 'o) deps \<Rightarrow> (string \<times> 'x goval) list \<Rightarrow> Values \<Rightarrow> Values" where
  \<comment> \<open>\<^verbatim>\<open>for k, v := range m { q.Set(k, fmt.Sprintf("%v", v)) }\<close>\<close>
  "set_params d params q =
     fold (\<lambda>(k, v). Values_Set k (Sprint d v)) (json_to_map d params) q"

definition Request_url ::
  "('x, 'o) deps \<Rightarrow> API \<Rightarrow> string \<Rightarrow> string \<Rightarrow> (string \<times> 'x goval) list \<Rightarrow> url option" where
  \<comment> \<open>lines 47 to 60: the URL the request goes to\<close>
  "Request_url d a method endpoint params =
     (case resolve d a endpoint of
        None \<Rightarrow> None
      | Some u \<Rightarrow>
          if method = ''GET''
          then Some (u\<lparr>RawQuery := Encode (set_params d params (Query u))\<rparr>)
          else Some u)"

definition prepare ::
  "('x, 'o) deps \<Rightarrow> API \<Rightarrow> string \<Rightarrow> url \<Rightarrow> request option" where
  \<comment> \<open>lines 62 to 66 (113 to 117): the error of \<^verbatim>\<open>http.NewRequest\<close> is dropped, so a
      refused request is a nil pointer and \<^verbatim>\<open>req.Header\<close> panics: \<open>None\<close>\<close>
  "prepare d a method u =
     (if NewRequest_ok d method u
      then Some \<lparr>Method = method, Target = u,
                 Header = [(''content-type'', ''application/json''),
                           (''X-MBX-APIKEY'', Key a),
                           (''UserAgent'', UserAgent a)]\<rparr>
      else None)"

definition receive ::
  "('x, 'o) deps \<Rightarrow> 'o option \<Rightarrow> response option \<times> string option \<Rightarrow> 'o result" where
  \<comment> \<open>lines 67 to 84 (118 to 134), from the result of \<^verbatim>\<open>Do\<close> on: \<^verbatim>\<open>defer res.Body.Close()\<close>
      reads \<^verbatim>\<open>res.Body\<close> at once, before any look at \<^verbatim>\<open>err\<close>\<close>
  "receive d out r =
     (case r of
        (None, err) \<Rightarrow> Panic
      | (Some res, err) \<Rightarrow>
          if StatusCode res \<noteq> 200 then
            (case Decode_binanceError d (Body res) \<lparr>Code = 0, Msg = []\<rparr> of
               (e, err') \<Rightarrow> Return (Some (errors_New (Msg e))) out)
          else
            (case out of
               None \<Rightarrow> Return (map_option TransportError err) None
             | Some v \<Rightarrow>
                 (case Decode_out d (Body res) v of
                    (v', err') \<Rightarrow> Return (map_option DecodeError err') (Some v'))))"

definition dispatch ::
  "('x, 'o) deps \<Rightarrow> API \<Rightarrow> string \<Rightarrow> url option \<Rightarrow> 'o option \<Rightarrow> 'o result" where
  \<comment> \<open>lines 61 to 84 and, the same text, lines 111 to 134: build the request, hand it to
      \<^verbatim>\<open>a.HTTPClient.Do\<close> (a nil client panics), read the answer\<close>
  "dispatch d a method target out =
     (case target of
        None \<Rightarrow> Panic
      | Some u \<Rightarrow>
          (case prepare d a method u of
             None \<Rightarrow> Panic
           | Some req \<Rightarrow>
               (case HTTPClient a of
                  None \<Rightarrow> Panic
                | Some do \<Rightarrow> receive d out (do req))))"

definition Request ::
  "('x, 'o) deps \<Rightarrow> API \<Rightarrow> string \<Rightarrow> string \<Rightarrow> (string \<times> 'x goval) list \<Rightarrow> 'o option
     \<Rightarrow> 'o result" where
  "Request d a method endpoint params out =
     dispatch d a method (Request_url d a method endpoint params) out"

definition timestamp :: "('x, 'o) deps \<Rightarrow> int" where
  \<comment> \<open>\<^verbatim>\<open>time.Now().Unix()*1000\<close>, an \<^verbatim>\<open>int64\<close> product\<close>
  "timestamp d = int64 (Unix (Now d) * 1000)"

definition signed_values ::
  "('x, 'o) deps \<Rightarrow> (string \<times> 'x goval) list \<Rightarrow> url \<Rightarrow> Values" where
  \<comment> \<open>lines 92 to 102: \<^verbatim>\<open>q\<close> when it is signed\<close>
  "signed_values d params u =
     Values_Add ''timestamp'' (Sprint_int64 (timestamp d)) (set_params d params (Query u))"

definition signature :: "('x, 'o) deps \<Rightarrow> API \<Rightarrow> Values \<Rightarrow> string" where
  \<comment> \<open>lines 104 to 107\<close>
  "signature d a q = EncodeToString (hmac_sha256 d (SecretKey a) (Encode q))"

definition SignedRequest_url ::
  "('x, 'o) deps \<Rightarrow> API \<Rightarrow> string \<Rightarrow> (string \<times> 'x goval) list \<Rightarrow> url option" where
  \<comment> \<open>lines 88 to 109\<close>
  "SignedRequest_url d a endpoint params =
     (case resolve d a endpoint of
        None \<Rightarrow> None
      | Some u \<Rightarrow>
          (let q = signed_values d params u
           in Some (u\<lparr>RawQuery := Encode q @ ''&signature='' @ signature d a q\<rparr>)))"

definition SignedRequest ::
  "('x, 'o) deps \<Rightarrow> API \<Rightarrow> string \<Rightarrow> string \<Rightarrow> (string \<times> 'x goval) list \<Rightarrow> 'o option
     \<Rightarrow> 'o result" where
  "SignedRequest d a method endpoint params out =
     dispatch d a method (SignedRequest_url d a endpoint params) out"

definition sent ::
  "('x, 'o) deps \<Rightarrow> API \<Rightarrow> string \<Rightarrow> url option \<Rightarrow> request option" where
  \<comment> \<open>the request that reaches \<^verbatim>\<open>HTTPClient.Do\<close>, if the call gets that far\<close>
  "sent d a method target =
     (case target of
        None \<Rightarrow> None
      | Some u \<Rightarrow>
          (case prepare d a method u of
             None \<Rightarrow> None
           | Some req \<Rightarrow> (case HTTPClient a of None \<Rightarrow> None | Some do \<Rightarrow> Some req)))"

subsection \<open>Package \<^verbatim>\<open>client\<close>: \<^verbatim>\<open>connect\<close> and \<^verbatim>\<open>Stream\<close>\<close>

text \<open>
  The WebSocket transport is what it answers: \<open>dial url n\<close> tells whether the dial of
  \<open>url\<close> succeeds when \<open>n\<close> dials came before it, and a list of read results holds what
  the successive calls of \<^verbatim>\<open>ReadMessage\<close> return. When the list is used up the loop
  waits in \<^verbatim>\<open>ReadMessage\<close>: the session is still \<open>Open\<close>. A handler is what one call
  of it does, so \<open>calls\<close> lists the \<^verbatim>\<open>go handler(m)\<close> statements run so far.
\<close>

datatype read_result = Message bytes | ReadError

datatype status = Open | Closed | Fatal

record 'h session =
  reconnects :: nat
  dialed :: "string list"  \<comment> \<open>the URLs dialled, in order\<close>
  closes :: nat            \<comment> \<open>calls of \<^verbatim>\<open>Close\<close> on a connection\<close>
  calls :: "'h list"
  status :: status

definition stream_url :: "string \<Rightarrow> string" where
  \<comment> \<open>line 140\<close>
  "stream_url endpoint = ''wss://stream.binance.com:9443/ws/'' @ endpoint"

definition connect ::
  "(string \<Rightarrow> nat \<Rightarrow> bool) \<Rightarrow> string \<Rightarrow> 'h session \<Rightarrow> 'h session" where
  \<comment> \<open>a failed dial is \<^verbatim>\<open>log.Fatal\<close>: the process exits\<close>
  "connect dial endpoint s =
     (let url = stream_url endpoint;
          s' = s\<lparr>dialed := dialed s @ [url]\<rparr>
      in if dial url (length (dialed s)) then s' else s'\<lparr>status := Fatal\<rparr>)"

fun read_loop ::
  "API \<Rightarrow> (string \<Rightarrow> nat \<Rightarrow> bool) \<Rightarrow> string \<Rightarrow> (bytes \<Rightarrow> 'h) \<Rightarrow> read_result list
     \<Rightarrow> 'h session \<Rightarrow> 'h session" where
  "read_loop a dial endpoint handler [] s = s"
| "read_loop a dial endpoint handler (Message m # rs) s =
     read_loop a dial endpoint handler rs (s\<lparr>calls := calls s @ [handler m]\<rparr>)"
| "read_loop a dial endpoint handler (ReadError # rs) s =
     (if AutoReconnect a \<and> reconnects s < ReconnectLimit then
        (let s1 = s\<lparr>closes := closes s + 1\<rparr>;
             s2 = s1\<lparr>reconnects := reconnects s1 + 1\<rparr>;
             s3 = connect dial endpoint s2
         in if status s3 = Fatal then s3 else read_loop a dial endpoint handler rs s3)
      else s\<lparr>closes := closes s + 1, status := Closed\<rparr>)"

definition Stream ::
  "API \<Rightarrow> (string \<Rightarrow> nat \<Rightarrow> bool) \<Rightarrow> string \<Rightarrow> (bytes \<Rightarrow> 'h) \<Rightarrow> read_result list
     \<Rightarrow> 'h session" where
  "Stream a dial endpoint handler rs =
     (let s0 = connect dial endpoint
                 \<lparr>reconnects = 0, dialed = [], closes = 0, calls = [], status = Open\<rparr>
      in if status s0 = Fatal then s0 else read_loop a dial endpoint handler rs s0)"

subsection \<open>Package \<^verbatim>\<open>stream\<close>: \<^verbatim>\<open>Depth\<close> and \<^verbatim>\<open>Kline\<close>\<close>

text \<open>
  The parameter and message types are declared outside the two source files: the
  parameters are records of the fields the code reads, and the message shapes
  \<^verbatim>\<open>DepthStream\<close> and \<^verbatim>\<open>KlineStream\<close> are type variables, each with its zero value.
  \<open>Unmarshal\<close> is \<^verbatim>\<open>json.Unmarshal\<close> at the shape: from the bytes and the value it
  decodes into, the value it leaves there and its error.
\<close>

record DepthParams =
  depth_Symbol :: string

record KlineParams =
  kline_Symbol :: string
  kline_Interval :: string

definition Depth_endpoint :: "(string \<Rightarrow> string) \<Rightarrow> DepthParams \<Rightarrow> string" where
  "Depth_endpoint unicodeLower params = ToLower unicodeLower (depth_Symbol params) @ ''@depth''"

definition Kline_endpoint :: "(string \<Rightarrow> string) \<Rightarrow> KlineParams \<Rightarrow> string" where
  "Kline_endpoint unicodeLower params =
     ToLower unicodeLower (kline_Symbol params) @ ''@kline_'' @ kline_Interval params"

definition typed_handler :: "(bytes \<Rightarrow> 'd \<Rightarrow> 'd \<times> string option) \<Rightarrow> 'd \<Rightarrow> bytes \<Rightarrow> 'd list" where
  \<comment> \<open>the function literal handed to \<^verbatim>\<open>Stream\<close>, the same in \<^verbatim>\<open>Depth\<close> and \<^verbatim>\<open>Kline\<close>:
      \<^verbatim>\<open>out := T{}; json.Unmarshal(d, &out); go handler(out)\<close>. Its value lists the
      arguments of the calls of the caller's handler.\<close>
  "typed_handler Unmarshal zero d = (case Unmarshal d zero of (out, err) \<Rightarrow> [out])"

definition Depth ::
  "API \<Rightarrow> (string \<Rightarrow> nat \<Rightarrow> bool) \<Rightarrow> (string \<Rightarrow> string) \<Rightarrow> (bytes \<Rightarrow> 'd \<Rightarrow> 'd \<times> string option)
     \<Rightarrow> 'd \<Rightarrow> DepthParams \<Rightarrow> read_result list \<Rightarrow> 'd list session" where
  "Depth a dial unicodeLower Unmarshal zero params rs =
     Stream a dial (Depth_endpoint unicodeLower params) (typed_handler Unmarshal zero) rs"

definition Kline ::
  "API \<Rightarrow> (string \<Rightarrow> nat \<Rightarrow> bool) \<Rightarrow> (string \<Rightarrow> string) \<Rightarrow> (bytes \<Rightarrow> 'd \<Rightarrow> 'd \<times> string option)
     \<Rightarrow> 'd \<Rightarrow> KlineParams \<Rightarrow> read_result list \<Rightarrow> 'd list session" where
  "Kline a dial unicodeLower Unmarshal zero params rs =
     Stream a dial (Kline_endpoint unicodeLower params) (typed_handler Unmarshal zero) rs"

definition read_errors :: "read_result list \<Rightarrow> nat" where
  \<comment> \<open>how many reads of a trace fail\<close>
  "read_errors rs = length (filter (\<lambda>r. r = ReadError) rs)"

subsection \<open>Sample collaborators, for concrete evaluation\<close>

definition demo_api :: API where
  "demo_api = New ''https://api.binance.com'' ''key'' ''secret'' None ''agent''"

text \<open>
  A message shape of two fields, and a decoder that answers three kinds of message as
  \<^verbatim>\<open>encoding/json\<close> answers them for the struct
  \<^verbatim>\<open>{EventType string `json:"e"`; EventTime int64 `json:"E"`}\<close>: a well-typed object
  is stored; on a field of the wrong type \<^verbatim>\<open>Unmarshal\<close> skips that field, completes the
  others and returns an \<^verbatim>\<open>UnmarshalTypeError\<close>; input that is not JSON is refused
  before anything is stored.
\<close>

record sample_shape =
  EventType :: string
  EventTime :: int

definition sample_Unmarshal :: "bytes \<Rightarrow> sample_shape \<Rightarrow> sample_shape \<times> string option" where
  \<open>sample_Unmarshal d out =
     (if d = ''{"e":"depthUpdate","E":1}''
      then (out\<lparr>EventType := ''depthUpdate'', EventTime := 1\<rparr>, None)
      else if d = ''{"e":"depthUpdate","E":"x"}''
      then (out\<lparr>EventType := ''depthUpdate''\<rparr>,
            Some ''json: cannot unmarshal string into Go struct field .E of type int64'')
      else (out, Some ''invalid character''))\<close>

text \<open>
  A URL parser for plain \<^verbatim>\<open>https\<close> URLs (the query is what follows the first
  \<^verbatim>\<open>?\<close>, the path starts at the first \<^verbatim>\<open>/\<close> after the host), a decoder that knows
  one error payload, a stand-in for the MAC, a request builder that takes every method
  of letters, digits and the marks \<^verbatim>\<open>!#$%&*+-.^_|~\<close>, and three transports.
\<close>

definition sample_ParseRequestURI :: "string \<Rightarrow> url option" where
  "sample_ParseRequestURI s =
     (case Cut CHR ''?'' s of
        (rest, query) \<Rightarrow>
          if take 8 rest = ''https://''
          then Some \<lparr>Base = ''https://'' @ takeWhile (\<lambda>c. c \<noteq> CHR ''/'') (drop 8 rest),
                     Path = dropWhile (\<lambda>c. c \<noteq> CHR ''/'') (drop 8 rest),
                     RawQuery = query\<rparr>
          else None)"

definition sample_Decode_binanceError ::
  "bytes \<Rightarrow> binanceError \<Rightarrow> binanceError \<times> string option" where
  \<open>sample_Decode_binanceError body e =
     (if body = ''{"code":-1100,"msg":"Illegal characters"}''
      then (e\<lparr>Code := - 1100, Msg := ''Illegal characters''\<rparr>, None)
      else (e, Some ''invalid character''))\<close>

definition sample_mac :: "bytes \<Rightarrow> bytes \<Rightarrow> bytes" where
  \<comment> \<open>stands in for HMAC-SHA256 where a call is evaluated: the key, then the message\<close>
  "sample_mac k msg = k @ msg"

definition sample_deps :: "(string, bytes) deps" where
  "sample_deps =
     \<lparr>ParseRequestURI = sample_ParseRequestURI,
      toValidUTF8 = (\<lambda>s. s),
      Marshal_ok = (\<lambda>x. True),
      json_other = GoOther,
      float64_of_int = (\<lambda>n. ''float64''),
      Sprint_other = (\<lambda>x. x),
      NewRequest_ok = (\<lambda>m u. list_all (\<lambda>c. isAlnum c \<or> c \<in> set ''!#$%&*+-.^_|~'') m),
      Decode_binanceError = sample_Decode_binanceError,
      Decode_out = (\<lambda>body v. (body, None)),
      hmac_sha256 = sample_mac,
      Now = \<lparr>sec = 1499827319, nsec = 559000000\<rparr>\<rparr>"

definition transport_refused :: "request \<Rightarrow> response option \<times> string option" where
  "transport_refused req = (None, Some ''dial tcp: connection refused'')"

definition transport_400 :: "request \<Rightarrow> response option \<times> string option" where
  \<open>transport_400 req =
     (Some \<lparr>StatusCode = 400, Body = ''{"code":-1100,"msg":"Illegal characters"}''\<rparr>, None)\<close>

definition transport_502 :: "request \<Rightarrow> response option \<times> string option" where
  "transport_502 req = (Some \<lparr>StatusCode = 502, Body = ''<html>Bad Gateway</html>''\<rparr>, None)"

section \<open>The request dispatcher\<close>

subsection \<open>Escaping\<close>

lemma each_nibble: "list_all P [0..<16] \<Longrightarrow> n < 16 \<Longrightarrow> P n"
  by (simp add: list_all_iff)

lemma unhex_upperhex: "n < 16 \<Longrightarrow> unhex (upperhex n) = Some n"
  by (rule each_nibble [where P = "\<lambda>n. unhex (upperhex n) = Some n"])
     (simp_all add: upt_rec upperhex_def unhex_def)

lemma upperhex_plain:
  "n < 16 \<Longrightarrow> upperhex n \<noteq> CHR ''&'' \<and> upperhex n \<noteq> CHR ''='' \<and> upperhex n \<noteq> CHR '';''"
  by (rule each_nibble [where P = "\<lambda>n. upperhex n \<noteq> CHR ''&'' \<and> upperhex n \<noteq> CHR ''=''
        \<and> upperhex n \<noteq> CHR '';''"])
     (simp_all add: upt_rec upperhex_def)

lemma lowerhex_plain: "n < 16 \<Longrightarrow> lowerhex n \<noteq> CHR ''&''"
  by (rule each_nibble [where P = "\<lambda>n. lowerhex n \<noteq> CHR ''&''"])
     (simp_all add: upt_rec lowerhex_def)

lemma of_char_less_256: "(of_char c :: nat) < 256"
proof -
  have "(of_char c :: nat) mod 256 < 256" by simp
  then show ?thesis by (simp only: of_char_mod_256)
qed

lemma hi_nibble: "(of_char c :: nat) div 16 < 16"
  using of_char_less_256 [of c] by (simp add: div_less_iff_less_mult)

lemma shouldEscape_special:
  "shouldEscape CHR ''&''" "shouldEscape CHR ''=''" "shouldEscape CHR '';''"
  "shouldEscape CHR ''%''" "shouldEscape CHR ''+''"
  by (simp_all add: shouldEscape_def isAlnum_def)

lemma escape_byte_chars:
  assumes "x \<in> set (escape_byte c)"
  shows "x \<noteq> CHR ''&'' \<and> x \<noteq> CHR ''='' \<and> x \<noteq> CHR '';''"
proof (cases "shouldEscape c")
  case True
  then show ?thesis
    using assms upperhex_plain [OF hi_nibble [of c]] upperhex_plain [of "of_char c mod 16"]
    by (auto simp: escape_byte_def split: if_splits)
next
  case False
  then have "x = c" using assms by (simp add: escape_byte_def)
  then show ?thesis using False shouldEscape_special by auto
qed

lemma QueryEscape_chars:
  "CHR ''&'' \<notin> set (QueryEscape s)" "CHR ''='' \<notin> set (QueryEscape s)"
  "CHR '';'' \<notin> set (QueryEscape s)"
  using escape_byte_chars by (auto simp: QueryEscape_def)

lemma QueryUnescape_escape_byte:
  "QueryUnescape (escape_byte c @ r) = map_option ((#) c) (QueryUnescape r)"
proof (cases "shouldEscape c")
  case True
  show ?thesis
  proof (cases "c = CHR '' ''")
    case True
    then show ?thesis by (simp add: escape_byte_def shouldEscape_def isAlnum_def)
  next
    case False
    have "char_of (16 * (of_char c div 16) + of_char c mod 16 :: nat) = c"
      by simp
    then show ?thesis
      using \<open>shouldEscape c\<close> False
      by (simp add: escape_byte_def unhex_upperhex hi_nibble)
  qed
next
  case False
  then have "c \<noteq> CHR ''%''" "c \<noteq> CHR ''+''"
    using shouldEscape_special by auto
  then show ?thesis using False by (simp add: escape_byte_def)
qed

lemma QueryUnescape_QueryEscape: "QueryUnescape (QueryEscape s) = Some s"
proof (induction s)
  case Nil
  show ?case by (simp add: QueryEscape_def)
next
  case (Cons c s)
  have "QueryEscape (c # s) = escape_byte c @ QueryEscape s"
    by (simp add: QueryEscape_def)
  then show ?case using Cons by (simp add: QueryUnescape_escape_byte)
qed

lemma EncodeToString_plain: "CHR ''&'' \<notin> set (EncodeToString bs)"
proof
  assume "CHR ''&'' \<in> set (EncodeToString bs)"
  then obtain b where
    "CHR ''&'' = lowerhex (of_char b div 16) \<or> CHR ''&'' = lowerhex (of_char b mod 16)"
    by (auto simp: EncodeToString_def)
  then show False
    using lowerhex_plain [OF hi_nibble [of b]] lowerhex_plain [of "of_char b mod 16"]
    by auto
qed

subsection \<open>Encoding and parsing a query\<close>

lemma split_on_nonempty: "split_on c s \<noteq> []"
  by (induction s) (auto split: list.splits)

lemma split_on_plain: "c \<notin> set s \<Longrightarrow> split_on c s = [s]"
  by (induction s) auto

lemma split_on_append: "c \<notin> set s \<Longrightarrow> split_on c (s @ c # t) = s # split_on c t"
  by (induction s) auto

lemma split_on_snoc: "c \<notin> set t \<Longrightarrow> split_on c (s @ c # t) = split_on c s @ [t]"
proof (induction s)
  case Nil
  then show ?case by (simp add: split_on_plain)
next
  case (Cons x s)
  then show ?case
    using split_on_nonempty [of c s] by (cases "split_on c s") auto
qed

lemma foldl_write_pair:
  "buf \<noteq> [] \<Longrightarrow> foldl write_pair buf xs = buf @ concat (map (\<lambda>x. CHR ''&'' # x) xs)"
  by (induction xs arbitrary: buf) (simp_all add: write_pair_def)

lemma split_on_joined:
  "CHR ''&'' \<notin> set buf \<Longrightarrow> (\<And>x. x \<in> set xs \<Longrightarrow> CHR ''&'' \<notin> set x) \<Longrightarrow>
   split_on CHR ''&'' (buf @ concat (map (\<lambda>x. CHR ''&'' # x) xs)) = buf # xs"
proof (induction xs arbitrary: buf)
  case Nil
  then show ?case by (simp add: split_on_plain)
next
  case (Cons x xs)
  have "split_on CHR ''&'' (x @ concat (map (\<lambda>x. CHR ''&'' # x) xs)) = x # xs"
    using Cons.prems(2) by (intro Cons.IH) simp_all
  then show ?case
    using Cons.prems(1) by (simp add: split_on_append)
qed

lemma split_on_foldl_write_pair:
  assumes "xs \<noteq> []" and "\<And>x. x \<in> set xs \<Longrightarrow> x \<noteq> [] \<and> CHR ''&'' \<notin> set x"
  shows "split_on CHR ''&'' (foldl write_pair [] xs) = xs"
proof (cases xs)
  case Nil
  then show ?thesis using assms(1) by simp
next
  case (Cons x xs')
  then have x: "x \<noteq> []" "CHR ''&'' \<notin> set x" using assms(2) by auto
  have "foldl write_pair [] xs = foldl write_pair x xs'"
    using Cons by (simp add: write_pair_def)
  also have "\<dots> = x @ concat (map (\<lambda>x. CHR ''&'' # x) xs')"
    using x(1) by (rule foldl_write_pair)
  finally show ?thesis
    using split_on_joined [of x xs'] x(2) assms(2) Cons by simp
qed

lemma Cut_at: "c \<notin> set a \<Longrightarrow> Cut c (a @ c # b) = (a, b)"
  by (induction a) (auto simp: Cut_def)

lemma encode_pair_chars:
  "encode_pair p \<noteq> []" "CHR ''&'' \<notin> set (encode_pair p)" "CHR '';'' \<notin> set (encode_pair p)"
  by (simp_all add: encode_pair_def QueryEscape_chars)

lemma parse_pair_encode_pair: "parse_pair (encode_pair (k, v)) m = Values_Add k v m"
proof -
  have "Cut CHR ''='' (QueryEscape k @ CHR ''='' # QueryEscape v) = (QueryEscape k, QueryEscape v)"
    by (rule Cut_at) (rule QueryEscape_chars)
  then show ?thesis
    using encode_pair_chars [of "(k, v)"]
    by (simp add: parse_pair_def encode_pair_def QueryUnescape_QueryEscape)
qed

lemma Encode_pairs: "Encode q = foldl write_pair [] (map encode_pair (query_pairs q))"
  by (simp add: Encode_def query_pairs_def encode_pair_def map_concat comp_def)

lemma fold_parse_pair:
  "fold parse_pair (map encode_pair ps) m = fold (\<lambda>p. Values_Add (fst p) (snd p)) ps m"
  by (induction ps arbitrary: m) (simp_all add: parse_pair_encode_pair [symmetric])

lemma ParseQuery_Encode:
  "ParseQuery (Encode q) = fold (\<lambda>p. Values_Add (fst p) (snd p)) (query_pairs q) []"
proof (cases "query_pairs q = []")
  case True
  then show ?thesis by (simp add: Encode_pairs ParseQuery_def parse_pair_def)
next
  case False
  have "split_on CHR ''&'' (Encode q) = map encode_pair (query_pairs q)"
    unfolding Encode_pairs
    using False encode_pair_chars by (intro split_on_foldl_write_pair) auto
  then show ?thesis by (simp add: ParseQuery_def fold_parse_pair)
qed

lemma Get_all_Add:
  "Values_Get_all (Values_Add k v m) k' =
     (if k' = k then Values_Get_all m k @ [v] else Values_Get_all m k')"
  by (simp add: Values_Add_def Values_Get_all_def update_conv')

lemma Get_all_Set:
  "Values_Get_all (Values_Set k v m) k' = (if k' = k then [v] else Values_Get_all m k')"
  by (simp add: Values_Set_def Values_Get_all_def update_conv')

lemma Get_all_fold_Add:
  "Values_Get_all (fold (\<lambda>p. Values_Add (fst p) (snd p)) ps m) k =
     Values_Get_all m k @ map snd (filter (\<lambda>p. fst p = k) ps)"
  by (induction ps arbitrary: m) (auto simp: Get_all_Add)

lemma grouped_filter:
  "distinct ks \<Longrightarrow>
   map snd (filter (\<lambda>p. fst p = k) (concat (map (\<lambda>k'. map (Pair k') (f k')) ks))) =
     (if k \<in> set ks then f k else [])"
proof (induction ks)
  case Nil
  show ?case by simp
next
  case (Cons a ks)
  have a: "map snd (filter (\<lambda>p. fst p = k) (map (Pair a) (f a))) = (if a = k then f a else [])"
    by (simp add: filter_map comp_def)
  show ?case using Cons by (auto simp: a)
qed

lemma Get_all_ParseQuery_Encode:
  "Values_Get_all (ParseQuery (Encode q)) k = Values_Get_all q k"
proof -
  have "Values_Get_all (ParseQuery (Encode q)) k =
          (if k \<in> set (sort (remdups (map fst q))) then Values_Get_all q k else [])"
    by (simp add: ParseQuery_Encode Get_all_fold_Add query_pairs_def grouped_filter
        Values_Get_all_def [of "[]"])
  moreover have "k \<notin> fst ` set q \<Longrightarrow> Values_Get_all q k = []"
    by (simp add: Values_Get_all_def map_of_eq_None_iff [THEN iffD2])
  ultimately show ?thesis by auto
qed

lemma Get_all_set_params:
  "distinct (map fst m) \<Longrightarrow>
   Values_Get_all (fold (\<lambda>(k, v). Values_Set k (f v)) m q) k =
     (case map_of m k of None \<Rightarrow> Values_Get_all q k | Some v \<Rightarrow> [f v])"
proof (induction m arbitrary: q)
  case Nil
  show ?case by simp
next
  case (Cons p m)
  obtain k1 v1 where p: "p = (k1, v1)" by (cases p)
  have none: "map_of m k1 = None"
    using Cons.prems p by (simp add: map_of_eq_None_iff)
  show ?case
    using Cons.IH [of "Values_Set k1 (f v1) q"] Cons.prems p none
    by (auto simp: Get_all_Set split: option.splits)
qed

subsection \<open>The parameters through JSON\<close>

lemma fold_update_distinct:
  "distinct (map fst al) \<Longrightarrow>
   distinct (map fst (fold (\<lambda>(k, v). AList.update (f k) (g v)) ps al))"
  by (induction ps arbitrary: al) (auto simp: distinct_update)

lemma json_to_map_distinct: "distinct (map fst (json_to_map d params))"
  by (simp add: json_to_map_def fold_update_distinct)

lemma map_of_fold_update:
  "distinct (map fst ps) \<Longrightarrow>
   map_of (fold (\<lambda>(k, v). AList.update k (g v)) ps al) k =
     (case map_of ps k of None \<Rightarrow> map_of al k | Some v \<Rightarrow> Some (g v))"
proof (induction ps arbitrary: al)
  case Nil
  show ?case by simp
next
  case (Cons p ps)
  obtain k1 v1 where p: "p = (k1, v1)" by (cases p)
  have none: "map_of ps k1 = None"
    using Cons.prems p by (simp add: map_of_eq_None_iff)
  show ?case
    using Cons.IH [of "AList.update k1 (g v1) al"] Cons.prems p none
    by (auto simp: update_conv' split: option.splits)
qed

lemma fold_update_ascii:
  "list_all (\<lambda>(k, v). isASCII k) ps \<Longrightarrow>
   fold (\<lambda>(k, v). AList.update (json_string d k) (g v)) ps al =
     fold (\<lambda>(k, v). AList.update k (g v)) ps al"
  by (induction ps arbitrary: al) (auto simp: json_string_def)

text \<open>
  A bag that \<^verbatim>\<open>json.Marshal\<close> accepts, with ASCII keys that are distinct, comes back as a
  map with the same keys, each value as JSON gives it back.
\<close>

lemma json_to_map_lookup:
  assumes "list_all (\<lambda>(k, v). isASCII k \<and> Marshal_value_ok d v) params"
    and "distinct (map fst params)"
  shows "map_of (json_to_map d params) k = map_option (json_value d) (map_of params k)"
proof -
  have ok: "list_all (\<lambda>(k, v). Marshal_value_ok d v) params"
    and ascii: "list_all (\<lambda>(k, v). isASCII k) params"
    using assms(1) by (auto simp: list_all_iff)
  show ?thesis
    using map_of_fold_update [OF assms(2), of "json_value d" "[]" k]
    by (simp add: json_to_map_def ok fold_update_ascii [OF ascii] split: option.splits)
qed

lemma Get_all_set_params_json:
  "Values_Get_all (set_params d params q) k =
     (case map_of (json_to_map d params) k of
        None \<Rightarrow> Values_Get_all q k
      | Some v \<Rightarrow> [Sprint d v])"
  unfolding set_params_def by (rule Get_all_set_params [OF json_to_map_distinct])

subsection \<open>Signed requests\<close>

lemma unhex_lowerhex: "n < 16 \<Longrightarrow> unhex (lowerhex n) = Some n"
  by (rule each_nibble [where P = "\<lambda>n. unhex (lowerhex n) = Some n"])
     (simp_all add: upt_rec lowerhex_def unhex_def)

lemma DecodeString_EncodeToString: "DecodeString (EncodeToString bs) = Some bs"
proof (induction bs)
  case Nil
  show ?case by (simp add: EncodeToString_def)
next
  case (Cons b bs)
  have e: "EncodeToString (b # bs) =
             lowerhex (of_char b div 16) # lowerhex (of_char b mod 16) # EncodeToString bs"
    by (simp add: EncodeToString_def)
  have "char_of (16 * (of_char b div 16) + of_char b mod 16 :: nat) = b"
    by simp
  then show ?case
    using Cons by (simp add: e unhex_lowerhex hi_nibble)
qed

lemma last_parameter_at: "CHR ''&'' \<notin> set t \<Longrightarrow> last_parameter (s @ CHR ''&'' # t) = (s, t)"
  using Cut_at [of "CHR ''&''" "rev t" "rev s"] by (simp add: last_parameter_def)

lemma Get_all_signed_values:
  "Values_Get_all (signed_values d params u) k =
     (if k = ''timestamp''
      then Values_Get_all (set_params d params (Query u)) ''timestamp'' @ [Sprint_int64 (timestamp d)]
      else Values_Get_all (set_params d params (Query u)) k)"
  by (simp add: signed_values_def Get_all_Add)

lemma sent_Some:
  "sent d a verb target = Some req \<Longrightarrow>
   \<exists>u. target = Some u \<and> prepare d a verb u = Some req \<and> HTTPClient a \<noteq> None"
  by (auto simp: sent_def split: option.splits)

lemma prepare_Target: "prepare d a verb u = Some req \<Longrightarrow> Target req = u \<and> Method req = verb"
  by (auto simp: prepare_def split: if_splits)

lemma dispatch_sent:
  "sent d a verb target = Some req \<Longrightarrow> HTTPClient a = Some do \<Longrightarrow>
   dispatch d a verb target out = receive d out (do req)"
  by (auto simp: sent_def dispatch_def split: option.splits)

text \<open>
  C1. Take any \<^verbatim>\<open>SignedRequest\<close> call that reaches the transport, and cut the query
  string of the request sent at its last \<^verbatim>\<open>&\<close>. The last parameter is \<open>signature=\<close>
  and the lower-case hex encoding of the HMAC-SHA256, keyed by the secret key, of
  exactly the text that precedes it: read back as hex, the signature is that MAC. The
  text that precedes it is the encoded query the code built; parsed as a query, it holds
  for every key of the parameters the one value the code stringified (over what the
  query of the base URL held), and the timestamp as the last value of \<open>timestamp\<close>. For
  a bag that \<^verbatim>\<open>json.Marshal\<close> accepts, with distinct ASCII keys, the parameters are the
  keys of the bag, each with its value as JSON gives it back. The call then goes on with
  what the transport answers to that request.
\<close>

theorem SignedRequest_signature:
  assumes "resolve d a endpoint = Some u"
    and "sent d a verb (SignedRequest_url d a endpoint params) = Some req"
    and "last_parameter (RawQuery (Target req)) = (signed, lastp)"
  shows "RawQuery (Target req) = signed @ ''&'' @ lastp
         \<and> lastp = ''signature='' @ EncodeToString (hmac_sha256 d (SecretKey a) signed)
         \<and> DecodeString (drop 10 lastp) = Some (hmac_sha256 d (SecretKey a) signed)
         \<and> signed = Encode (signed_values d params u)
         \<and> Values_Get_all (ParseQuery signed) k =
             (case map_of (json_to_map d params) k of
                None \<Rightarrow> Values_Get_all (Query u) k
              | Some v \<Rightarrow> [Sprint d v])
             @ (if k = ''timestamp'' then [Sprint_int64 (timestamp d)] else [])
         \<and> (list_all (\<lambda>(k, v). isASCII k \<and> Marshal_value_ok d v) params
              \<and> distinct (map fst params)
            \<longrightarrow> map_of (json_to_map d params) k = map_option (json_value d) (map_of params k))
         \<and> (HTTPClient a = Some do \<longrightarrow>
               SignedRequest d a verb endpoint params out = receive d out (do req))"
proof -
  let ?E = "Encode (signed_values d params u)"
  let ?sig = "EncodeToString (hmac_sha256 d (SecretKey a) ?E)"
  have url: "SignedRequest_url d a endpoint params =
               Some (u\<lparr>RawQuery := ?E @ ''&signature='' @ ?sig\<rparr>)"
    using assms(1) by (simp add: SignedRequest_url_def signature_def Let_def)
  obtain u' where u': "SignedRequest_url d a endpoint params = Some u'"
    "prepare d a verb u' = Some req"
    using sent_Some [OF assms(2)] by blast
  have raw: "RawQuery (Target req) = ?E @ CHR ''&'' # (''signature='' @ ?sig)"
    using u' url prepare_Target [of d a _ u' req] by auto
  have "CHR ''&'' \<notin> set (''signature='' @ ?sig)"
    using EncodeToString_plain by simp
  then have "last_parameter (RawQuery (Target req)) = (?E, ''signature='' @ ?sig)"
    unfolding raw by (rule last_parameter_at)
  then have "(signed, lastp) = (?E, ''signature='' @ ?sig)"
    using assms(3) by (simp only:)
  then have cut: "signed = ?E" "lastp = ''signature='' @ ?sig"
    by (simp_all only: prod.inject)
  have whole: "RawQuery (Target req) = signed @ ''&'' @ lastp"
    using raw cut by simp
  have readback: "DecodeString (drop 10 lastp) = Some (hmac_sha256 d (SecretKey a) signed)"
    using cut by (simp add: DecodeString_EncodeToString)
  have vals: "Values_Get_all (ParseQuery signed) k =
             (case map_of (json_to_map d params) k of
                None \<Rightarrow> Values_Get_all (Query u) k
              | Some v \<Rightarrow> [Sprint d v])
             @ (if k = ''timestamp'' then [Sprint_int64 (timestamp d)] else [])"
    unfolding cut(1) Get_all_ParseQuery_Encode Get_all_signed_values Get_all_set_params_json
    by (auto split: option.splits)
  have bag: "list_all (\<lambda>(k, v). isASCII k \<and> Marshal_value_ok d v) params
              \<and> distinct (map fst params)
            \<longrightarrow> map_of (json_to_map d params) k = map_option (json_value d) (map_of params k)"
    using json_to_map_lookup [of d params k] by blast
  have run: "HTTPClient a = Some do \<longrightarrow>
               SignedRequest d a verb endpoint params out = receive d out (do req)"
    using dispatch_sent [OF assms(2)] by (simp add: SignedRequest_def)
  from whole cut readback vals bag run show ?thesis by blast
qed

lemma sample_deps_fields:
  "toValidUTF8 sample_deps = (\<lambda>s. s)" "Marshal_ok sample_deps = (\<lambda>x. True)"
  "json_other sample_deps = GoOther" "Sprint_other sample_deps = (\<lambda>x. x)"
  "hmac_sha256 sample_deps = sample_mac" "ParseRequestURI sample_deps = sample_ParseRequestURI"
  "Decode_binanceError sample_deps = sample_Decode_binanceError"
  "Decode_out sample_deps = (\<lambda>body v. (body, None))"
  "NewRequest_ok sample_deps =
     (\<lambda>m u. list_all (\<lambda>c. isAlnum c \<or> c \<in> set ''!#$%&*+-.^_|~'') m)"
  by (simp_all add: sample_deps_def)

lemma sample_resolve:
  "resolve sample_deps (demo_api\<lparr>HTTPClient := c\<rparr>) ep =
     Some \<lparr>Base = ''https://api.binance.com'', Path = ep, RawQuery = []\<rparr>"
  by (simp add: resolve_def sample_deps_fields demo_api_def New_def sample_ParseRequestURI_def
      Cut_def)

lemma sample_timestamp: "timestamp sample_deps = 1499827319000"
  by (simp add: timestamp_def sample_deps_def Unix_def int64_def)

lemma sample_Sprint: "Sprint_int64 1499827319000 = ''1499827319000''"
  by (simp add: Sprint_int64_def show_nat.simps digits_def)

lemma sample_Sprint_float: "Sprint_float64 1499827319000 = ''1.499827319e+12''"
  by (simp add: Sprint_float64_def Let_def show_nat.simps digits_def strip_zeros_def fmtE_def
      exp_digits_def)

lemma sample_json_to_map:
  "json_to_map sample_deps [(''symbol'', GoString ''BTCUSDT''), (''startTime'', GoInt 1499827319000)]
     = [(''symbol'', GoString ''BTCUSDT''), (''startTime'', GoFloat 1499827319000)]"
  by (simp add: json_to_map_def Marshal_value_ok_def json_string_def isASCII_def json_value_def
      exact_float_def)

lemma sample_set_params:
  "set_params sample_deps [(''symbol'', GoString ''BTCUSDT''), (''startTime'', GoInt 1499827319000)]
      (Query \<lparr>Base = b, Path = ep, RawQuery = []\<rparr>)
     = [(''symbol'', [''BTCUSDT'']), (''startTime'', [''1.499827319e+12''])]"
  by (simp add: set_params_def sample_json_to_map Sprint_def exact_float_def sample_Sprint_float
      Query_def ParseQuery_def parse_pair_def Values_Set_def)

lemma sample_signed_values:
  "signed_values sample_deps
      [(''symbol'', GoString ''BTCUSDT''), (''startTime'', GoInt 1499827319000)]
      \<lparr>Base = b, Path = ep, RawQuery = []\<rparr>
   = [(''symbol'', [''BTCUSDT'']), (''startTime'', [''1.499827319e+12'']),
      (''timestamp'', [''1499827319000''])]"
  by (simp add: signed_values_def sample_set_params sample_timestamp sample_Sprint Values_Add_def
      Values_Get_all_def)

lemma sample_Encode:
  "Encode [(''symbol'', [''BTCUSDT'']), (''startTime'', [''1.499827319e+12'']),
           (''timestamp'', [''1499827319000''])]
     = ''startTime=1.499827319e%2B12&symbol=BTCUSDT&timestamp=1499827319000''"
  by (simp add: Encode_def write_pair_def Values_Get_all_def QueryEscape_def escape_byte_def
      shouldEscape_def isAlnum_def upperhex_def)

lemma sample_signature:
  "EncodeToString
     (sample_mac ''secret'' ''startTime=1.499827319e%2B12&symbol=BTCUSDT&timestamp=1499827319000'')
   = ''736563726574737461727454696d653d312e3439393832373331396525324231322673796d626f6c3d425443555344542674696d657374616d703d31343939383237333139303030''"
  by (simp add: sample_mac_def EncodeToString_def lowerhex_def)

lemma sample_SignedRequest_url:
  "SignedRequest_url sample_deps (demo_api\<lparr>HTTPClient := c\<rparr>) ep
      [(''symbol'', GoString ''BTCUSDT''), (''startTime'', GoInt 1499827319000)] =
     Some \<lparr>Base = ''https://api.binance.com'', Path = ep,
           RawQuery = ''startTime=1.499827319e%2B12&symbol=BTCUSDT&timestamp=1499827319000''
             @ ''&signature=''
             @ ''736563726574737461727454696d653d312e3439393832373331396525324231322673796d626f6c3d425443555344542674696d657374616d703d31343939383237333139303030''\<rparr>"
proof -
  have k: "SecretKey (demo_api\<lparr>HTTPClient := c\<rparr>) = ''secret''"
    by (simp add: demo_api_def New_def)
  show ?thesis
    by (simp only: SignedRequest_url_def sample_resolve sample_signed_values sample_Encode
        signature_def k sample_deps_fields sample_signature Let_def option.case
        url.simps)
qed

lemma sample_prepare:
  "prepare sample_deps (demo_api\<lparr>HTTPClient := c\<rparr>) ''GET'' u =
     Some \<lparr>Method = ''GET'', Target = u,
           Header = [(''content-type'', ''application/json''), (''X-MBX-APIKEY'', ''key''),
                     (''UserAgent'', ''agent'')]\<rparr>"
  by (simp add: prepare_def sample_deps_fields demo_api_def New_def isAlnum_def)

lemma sample_sent:
  "sent sample_deps (demo_api\<lparr>HTTPClient := Some c\<rparr>) ''GET'' (Some u) =
     Some \<lparr>Method = ''GET'', Target = u,
           Header = [(''content-type'', ''application/json''), (''X-MBX-APIKEY'', ''key''),
                     (''UserAgent'', ''agent'')]\<rparr>"
  by (simp add: sent_def sample_prepare)

text \<open>
  A signed request for the trades of \<open>BTCUSDT\<close> since 1499827319000 at the sample
  clock, answered with status 400. The stand-in MAC is the key followed by the message,
  so the signature read back shows the text that was signed.
\<close>

theorem SignedRequest_signature_witness:
  \<open>sent sample_deps (demo_api\<lparr>HTTPClient := Some transport_400\<rparr>) ''GET''
      (SignedRequest_url sample_deps (demo_api\<lparr>HTTPClient := Some transport_400\<rparr>)
         ''/api/v3/myTrades''
         [(''symbol'', GoString ''BTCUSDT''), (''startTime'', GoInt 1499827319000)])
     = Some \<lparr>Method = ''GET'',
         Target = \<lparr>Base = ''https://api.binance.com'', Path = ''/api/v3/myTrades'',
           RawQuery = ''startTime=1.499827319e%2B12&symbol=BTCUSDT&timestamp=1499827319000''
             @ ''&signature=''
             @ ''736563726574737461727454696d653d312e3439393832373331396525324231322673796d626f6c3d425443555344542674696d657374616d703d31343939383237333139303030''\<rparr>,
         Header = [(''content-type'', ''application/json''), (''X-MBX-APIKEY'', ''key''),
                   (''UserAgent'', ''agent'')]\<rparr>
   \<and> DecodeString
         ''736563726574737461727454696d653d312e3439393832373331396525324231322673796d626f6c3d425443555344542674696d657374616d703d31343939383237333139303030''
       = Some (''secret'' @ ''startTime=1.499827319e%2B12&symbol=BTCUSDT&timestamp=1499827319000'')
   \<and> Values_Get_all
         (ParseQuery ''startTime=1.499827319e%2B12&symbol=BTCUSDT&timestamp=1499827319000'')
         ''startTime'' = [''1.499827319e+12'']
   \<and> Values_Get_all
         (ParseQuery ''startTime=1.499827319e%2B12&symbol=BTCUSDT&timestamp=1499827319000'')
         ''symbol'' = [''BTCUSDT'']
   \<and> Values_Get_all
         (ParseQuery ''startTime=1.499827319e%2B12&symbol=BTCUSDT&timestamp=1499827319000'')
         ''timestamp'' = [''1499827319000'']
   \<and> Values_Get_all
         (ParseQuery ''startTime=1.499827319e%2B12&symbol=BTCUSDT&timestamp=1499827319000'')
         ''signature'' = []
   \<and> SignedRequest sample_deps (demo_api\<lparr>HTTPClient := Some transport_400\<rparr>) ''GET''
         ''/api/v3/myTrades''
         [(''symbol'', GoString ''BTCUSDT''), (''startTime'', GoInt 1499827319000)] None
       = Return (Some (errors_New ''Illegal characters'')) None\<close>
proof -
  let ?a = "demo_api\<lparr>HTTPClient := Some transport_400\<rparr>"
  let ?u = "\<lparr>Base = ''https://api.binance.com'', Path = ''/api/v3/myTrades'', RawQuery = []\<rparr>"
  let ?P = "[(''symbol'', GoString ''BTCUSDT''), (''startTime'', GoInt 1499827319000)]"
  let ?E = "''startTime=1.499827319e%2B12&symbol=BTCUSDT&timestamp=1499827319000''"
  let ?H = "''736563726574737461727454696d653d312e3439393832373331396525324231322673796d626f6c3d425443555344542674696d657374616d703d31343939383237333139303030''"
  let ?req = "\<lparr>Method = ''GET'',
      Target = \<lparr>Base = ''https://api.binance.com'', Path = ''/api/v3/myTrades'',
                 RawQuery = ?E @ ''&signature='' @ ?H\<rparr>,
      Header = [(''content-type'', ''application/json''), (''X-MBX-APIKEY'', ''key''),
                (''UserAgent'', ''agent'')]\<rparr>"
  have r: "resolve sample_deps ?a ''/api/v3/myTrades'' = Some ?u"
    by (rule sample_resolve)
  have s: "sent sample_deps ?a ''GET'' (SignedRequest_url sample_deps ?a ''/api/v3/myTrades'' ?P)
           = Some ?req"
    by (simp only: sample_SignedRequest_url sample_sent)
  have "CHR ''&'' \<notin> set (''signature='' @ ?H)"
    by simp
  then have "last_parameter (?E @ CHR ''&'' # (''signature='' @ ?H)) = (?E, ''signature='' @ ?H)"
    by (rule last_parameter_at)
  then have lp: "last_parameter (RawQuery (Target ?req)) = (?E, ''signature='' @ ?H)"
    by simp
  have c: "HTTPClient ?a = Some transport_400" by simp
  have rc: "receive sample_deps None (transport_400 ?req)
              = Return (Some (errors_New ''Illegal characters'')) None"
    by (simp add: receive_def transport_400_def sample_deps_fields sample_Decode_binanceError_def)
  have k: "hmac_sha256 sample_deps (SecretKey ?a) ?E = ''secret'' @ ?E"
    by (simp add: sample_deps_fields sample_mac_def demo_api_def New_def)
  have m: "map_of (json_to_map sample_deps ?P) ''startTime'' = Some (GoFloat 1499827319000)"
    "map_of (json_to_map sample_deps ?P) ''symbol'' = Some (GoString ''BTCUSDT'')"
    "map_of (json_to_map sample_deps ?P) ''timestamp'' = None"
    "map_of (json_to_map sample_deps ?P) ''signature'' = None"
    by (simp_all add: sample_json_to_map)
  have f: "Sprint sample_deps (GoFloat 1499827319000) = ''1.499827319e+12''"
    "Sprint sample_deps (GoString ''BTCUSDT'') = ''BTCUSDT''"
    by (simp_all add: Sprint_def exact_float_def sample_Sprint_float)
  have b: "Values_Get_all (Query ?u) kk = []" for kk
    by (simp add: Query_def ParseQuery_def parse_pair_def Values_Get_all_def)
  note t = SignedRequest_signature [OF r s lp, where out = None and ?do = transport_400]
  have "DecodeString (drop 10 (''signature='' @ ?H)) = Some (''secret'' @ ?E)"
    using t [of "''symbol''", THEN conjunct2, THEN conjunct2, THEN conjunct1]
    by (simp only: k)
  then have d: "DecodeString ?H = Some (''secret'' @ ?E)"
    by simp
  have v: "Values_Get_all (ParseQuery ?E) ''startTime'' = [''1.499827319e+12'']"
    "Values_Get_all (ParseQuery ?E) ''symbol'' = [''BTCUSDT'']"
    "Values_Get_all (ParseQuery ?E) ''timestamp'' = [''1499827319000'']"
    "Values_Get_all (ParseQuery ?E) ''signature'' = []"
    using t [of "''startTime''", THEN conjunct2, THEN conjunct2, THEN conjunct2, THEN conjunct2,
             THEN conjunct1]
      t [of "''symbol''", THEN conjunct2, THEN conjunct2, THEN conjunct2, THEN conjunct2,
             THEN conjunct1]
      t [of "''timestamp''", THEN conjunct2, THEN conjunct2, THEN conjunct2, THEN conjunct2,
             THEN conjunct1]
      t [of "''signature''", THEN conjunct2, THEN conjunct2, THEN conjunct2, THEN conjunct2,
             THEN conjunct1]
    by (simp_all add: m f b sample_timestamp sample_Sprint)
  have run: "SignedRequest sample_deps ?a ''GET'' ''/api/v3/myTrades'' ?P None
               = Return (Some (errors_New ''Illegal characters'')) None"
    using t [of "''symbol''", THEN conjunct2, THEN conjunct2, THEN conjunct2, THEN conjunct2,
             THEN conjunct2, THEN conjunct2] c rc
    by simp
  from s d v run show ?thesis by simp
qed

lemma Request_query_content:
  assumes "resolve d a endpoint = Some u"
    and "Request_url d a ''GET'' endpoint params = Some u'"
  shows "Values_Get_all (Query u') k =
           (case map_of (json_to_map d params) k of
              None \<Rightarrow> Values_Get_all (Query u) k
            | Some v \<Rightarrow> [Sprint d v])"
proof -
  have raw: "RawQuery u' = Encode (set_params d params (Query u))"
    using assms by (auto simp: Request_url_def)
  show ?thesis
    unfolding Query_def [of u'] raw Get_all_ParseQuery_Encode
    by (rule Get_all_set_params_json)
qed

lemma sample_Encode_klines:
  "Encode [(''symbol'', [''BTCUSDT'']), (''startTime'', [''1.499827319e+12''])]
     = ''startTime=1.499827319e%2B12&symbol=BTCUSDT''"
  by (simp add: Encode_def write_pair_def Values_Get_all_def QueryEscape_def escape_byte_def
      shouldEscape_def isAlnum_def upperhex_def)

text \<open>
  C8. The claim is that the query string of a \<^verbatim>\<open>GET\<close> request has exactly the keys of
  the parameter bag, each with its stringified value. The keys are there
  (\<open>Request_query_content\<close>), the values are not those of the bag: lines 52 to 54 pass
  the bag through JSON into a \<^verbatim>\<open>map[string]interface{}\<close>, where every number is a
  \<^verbatim>\<open>float64\<close>, and line 57 prints that. For the klines of \<open>BTCUSDT\<close> since
  1499827319000, an \<^verbatim>\<open>int64\<close> whose text is \<open>1499827319000\<close>, the query string sent
  is \<open>startTime=1.499827319e%2B12&symbol=BTCUSDT\<close>: the value of \<open>startTime\<close> is
  \<open>1.499827319e+12\<close>.
\<close>

theorem Request_number_as_float:
  "Request_url sample_deps demo_api ''GET'' ''/api/v1/klines''
       [(''symbol'', GoString ''BTCUSDT''), (''startTime'', GoInt 1499827319000)]
     = Some \<lparr>Base = ''https://api.binance.com'', Path = ''/api/v1/klines'',
             RawQuery = ''startTime=1.499827319e%2B12&symbol=BTCUSDT''\<rparr>
   \<and> Values_Get_all (ParseQuery ''startTime=1.499827319e%2B12&symbol=BTCUSDT'') ''startTime''
       = [''1.499827319e+12'']
   \<and> Sprint sample_deps (GoInt 1499827319000) = ''1499827319000''"
proof -
  have a: "demo_api = demo_api\<lparr>HTTPClient := None\<rparr>"
    by (simp add: demo_api_def New_def)
  have r: "resolve sample_deps demo_api ''/api/v1/klines''
             = Some \<lparr>Base = ''https://api.binance.com'', Path = ''/api/v1/klines'', RawQuery = []\<rparr>"
    using sample_resolve [of None "''/api/v1/klines''"] a by simp
  have u: "Request_url sample_deps demo_api ''GET'' ''/api/v1/klines''
       [(''symbol'', GoString ''BTCUSDT''), (''startTime'', GoInt 1499827319000)]
     = Some \<lparr>Base = ''https://api.binance.com'', Path = ''/api/v1/klines'',
             RawQuery = ''startTime=1.499827319e%2B12&symbol=BTCUSDT''\<rparr>"
    by (simp add: Request_url_def r sample_set_params sample_Encode_klines)
  have v: "Values_Get_all (ParseQuery ''startTime=1.499827319e%2B12&symbol=BTCUSDT'') ''startTime''
       = [''1.499827319e+12'']"
    unfolding sample_Encode_klines [symmetric] Get_all_ParseQuery_Encode
    by (simp add: Values_Get_all_def)
  have p: "Sprint sample_deps (GoInt 1499827319000) = ''1499827319000''"
    by (simp add: Sprint_def sample_Sprint)
  from u v p show ?thesis by simp
qed

subsection \<open>The timestamp, and what a call returns\<close>

text \<open>
  C6, as amended. For a clock within the \<^verbatim>\<open>int64\<close> range of the product, the timestamp
  appended by \<^verbatim>\<open>SignedRequest\<close> is the whole seconds since the Unix epoch times
  1000: the time in milliseconds rounded down to a whole second, so at most the current
  time in milliseconds and less than 1000 below it. It is written in decimal as the last
  value of the key \<open>timestamp\<close>.
\<close>

theorem timestamp_whole_seconds:
  assumes "- (2 ^ 63) \<le> sec (Now d) * 1000" and "sec (Now d) * 1000 < 2 ^ 63"
    and "nsec (Now d) < 10 ^ 9"
  shows "timestamp d = Unix (Now d) * 1000
         \<and> timestamp d = UnixMilli (Now d) div 1000 * 1000
         \<and> timestamp d \<le> UnixMilli (Now d)
         \<and> UnixMilli (Now d) < timestamp d + 1000
         \<and> Values_Get_all (signed_values d params u) ''timestamp'' =
             Values_Get_all (set_params d params (Query u)) ''timestamp''
               @ [Sprint_int64 (timestamp d)]"
proof -
  have wrap: "int64 (sec (Now d) * 1000) = sec (Now d) * 1000"
    using assms(1,2) by (simp add: int64_def)
  have ts: "timestamp d = sec (Now d) * 1000"
    by (simp add: timestamp_def Unix_def wrap)
  have "nsec (Now d) div 1000000 < 1000"
    using assms(3) by (simp add: div_less_iff_less_mult)
  then have ms: "0 \<le> int (nsec (Now d) div 1000000)" "int (nsec (Now d) div 1000000) < 1000"
    by simp_all
  have dv: "UnixMilli (Now d) div 1000 = sec (Now d)"
    unfolding UnixMilli_def using ms by simp
  show ?thesis
    using ts dv ms by (simp add: Unix_def Get_all_signed_values) (simp add: UnixMilli_def)
qed

theorem timestamp_whole_seconds_witness:
  "timestamp sample_deps = 1499827319000
   \<and> UnixMilli (Now sample_deps) = 1499827319559
   \<and> Values_Get_all (signed_values sample_deps [(''symbol'', GoString ''BTCUSDT'')]
          \<lparr>Base = ''https://api.binance.com'', Path = ''/api/v3/order'', RawQuery = []\<rparr>)
        ''timestamp'' = [''1499827319000'']"
proof -
  have n: "Now sample_deps = \<lparr>sec = 1499827319, nsec = 559000000\<rparr>"
    by (simp add: sample_deps_def)
  have p: "Values_Get_all (set_params sample_deps [(''symbol'', GoString ''BTCUSDT'')]
             (Query \<lparr>Base = ''https://api.binance.com'', Path = ''/api/v3/order'', RawQuery = []\<rparr>))
             ''timestamp'' = []"
    unfolding Get_all_set_params_json
    by (simp add: json_to_map_def Marshal_value_ok_def json_string_def isASCII_def
        json_value_def Query_def ParseQuery_def parse_pair_def Values_Get_all_def)
  show ?thesis
    using timestamp_whole_seconds [of sample_deps "[(''symbol'', GoString ''BTCUSDT'')]"
        "\<lparr>Base = ''https://api.binance.com'', Path = ''/api/v3/order'', RawQuery = []\<rparr>"]
    by (simp add: n Unix_def UnixMilli_def p sample_Sprint)
qed

text \<open>
  The claim as first stated fails whenever the clock is not on a whole second: at
  1499827319.559 s the timestamp is 1499827319000, the time in milliseconds 1499827319559.
\<close>

theorem timestamp_millis_counterexample:
  "timestamp sample_deps = 1499827319000
   \<and> UnixMilli (Now sample_deps) = 1499827319559
   \<and> timestamp sample_deps \<noteq> UnixMilli (Now sample_deps)"
  by (simp add: sample_timestamp) (simp add: sample_deps_def UnixMilli_def)

lemma receive_non_200:
  "StatusCode res \<noteq> 200 \<Longrightarrow>
   receive d out (Some res, err) =
     Return (Some (errors_New (Msg (fst (Decode_binanceError d (Body res) \<lparr>Code = 0, Msg = []\<rparr>)))))
       out"
  by (simp add: receive_def split: prod.split)

lemma receive_200:
  "receive d (Some v) (Some \<lparr>StatusCode = 200, Body = b\<rparr>, err) =
     Return (map_option DecodeError (snd (Decode_out d b v))) (Some (fst (Decode_out d b v)))"
  by (simp add: receive_def split: prod.split)

lemma receive_nil: "receive d out (None, err) = Panic"
  by (simp add: receive_def)

lemma dispatch_run:
  "HTTPClient a = Some do \<Longrightarrow> prepare d a method u = Some req \<Longrightarrow>
   dispatch d a method (Some u) out = receive d out (do req)"
  by (simp add: dispatch_def)

text \<open>
  C4. When the transport answers with a status other than 200, \<^verbatim>\<open>Request\<close> and
  \<^verbatim>\<open>SignedRequest\<close> return an error made by \<^verbatim>\<open>errors.New\<close> whose message is the
  \<^verbatim>\<open>Msg\<close> field the decoder left in the \<^verbatim>\<open>{code, msg}\<close> payload; \<^verbatim>\<open>out\<close> is
  untouched.
\<close>

theorem non_200_returns_msg:
  assumes "HTTPClient a = Some do" and "StatusCode res \<noteq> 200"
    and "Decode_binanceError d (Body res) \<lparr>Code = 0, Msg = []\<rparr> = (e, derr)"
  shows "(Request_url d a verb endpoint params = Some u \<and> prepare d a verb u = Some req
            \<and> do req = (Some res, err)
          \<longrightarrow> Request d a verb endpoint params out = Return (Some (errors_New (Msg e))) out)
       \<and> (SignedRequest_url d a endpoint params = Some u' \<and> prepare d a verb u' = Some req'
            \<and> do req' = (Some res, err')
          \<longrightarrow> SignedRequest d a verb endpoint params out
                = Return (Some (errors_New (Msg e))) out)"
  using assms
  by (simp add: Request_def SignedRequest_def dispatch_run receive_non_200)

text \<open>
  The canned body \<^verbatim>\<open>{"code":-1100,"msg":"Illegal characters"}\<close> with status 400: both
  calls fail with the message \<open>Illegal characters\<close>.
\<close>

theorem non_200_returns_msg_witness:
  "Request sample_deps (demo_api\<lparr>HTTPClient := Some transport_400\<rparr>) ''GET'' ''/api/v1/depth''
      [(''symbol'', GoString ''BTCUSDT'')] None
     = Return (Some (errors_New ''Illegal characters'')) None
   \<and> SignedRequest sample_deps (demo_api\<lparr>HTTPClient := Some transport_400\<rparr>) ''GET''
      ''/api/v3/order'' [(''symbol'', GoString ''BTCUSDT'')] (Some [])
     = Return (Some (errors_New ''Illegal characters'')) (Some [])"
proof -
  let ?a = "demo_api\<lparr>HTTPClient := Some transport_400\<rparr>"
  let ?res = \<open>\<lparr>StatusCode = 400, Body = ''{"code":-1100,"msg":"Illegal characters"}''\<rparr>\<close>
  have c: "HTTPClient ?a = Some transport_400" by simp
  have st: "StatusCode ?res \<noteq> 200" by simp
  have dec: "Decode_binanceError sample_deps (Body ?res) \<lparr>Code = 0, Msg = []\<rparr>
               = (\<lparr>Code = - 1100, Msg = ''Illegal characters''\<rparr>, None)"
    by (simp add: sample_deps_fields sample_Decode_binanceError_def)
  have u1: "\<exists>u. Request_url sample_deps ?a ''GET'' ''/api/v1/depth'' [(''symbol'', GoString ''BTCUSDT'')]
              = Some u"
    by (simp add: Request_url_def sample_resolve)
  then obtain u where u: "Request_url sample_deps ?a ''GET'' ''/api/v1/depth''
      [(''symbol'', GoString ''BTCUSDT'')] = Some u" by blast
  obtain u' where u': "SignedRequest_url sample_deps ?a ''/api/v3/order''
      [(''symbol'', GoString ''BTCUSDT'')] = Some u'"
    by (simp add: SignedRequest_url_def sample_resolve Let_def)
  let ?hdr = "[(''content-type'', ''application/json''), (''X-MBX-APIKEY'', ''key''),
               (''UserAgent'', ''agent'')]"
  note t = non_200_returns_msg [OF c st dec, where verb = "''GET''" and u = u and u' = u'
      and req = "\<lparr>Method = ''GET'', Target = u, Header = ?hdr\<rparr>"
      and req' = "\<lparr>Method = ''GET'', Target = u', Header = ?hdr\<rparr>"
      and err = None and err' = None]
  show ?thesis
    using t [where endpoint = "''/api/v1/depth''" and params = "[(''symbol'', GoString ''BTCUSDT'')]"
          and out = None, THEN conjunct1]
      t [where endpoint = "''/api/v3/order''" and params = "[(''symbol'', GoString ''BTCUSDT'')]"
          and out = "Some []", THEN conjunct2]
      u u'
    by (simp add: sample_prepare transport_400_def)
qed

text \<open>
  C3. The claim is that a failure of the transport comes back as an error value. The
  code does not get there: when \<^verbatim>\<open>Do\<close> fails its response is nil, and
  \<^verbatim>\<open>defer res.Body.Close()\<close> on the next line reads \<^verbatim>\<open>res.Body\<close> before \<^verbatim>\<open>err\<close> is
  looked at. With a transport that refuses the connection both calls panic.
\<close>

theorem transport_failure_panics:
  "Request sample_deps (demo_api\<lparr>HTTPClient := Some transport_refused\<rparr>) ''GET''
      ''/api/v1/ping'' [] None = Panic
   \<and> SignedRequest sample_deps (demo_api\<lparr>HTTPClient := Some transport_refused\<rparr>) ''GET''
      ''/api/v3/account'' [] None = Panic"
proof -
  let ?a = "demo_api\<lparr>HTTPClient := Some transport_refused\<rparr>"
  have c: "HTTPClient ?a = Some transport_refused" by simp
  have "\<And>u. dispatch sample_deps ?a ''GET'' (Some u) (None :: bytes option) = Panic"
    by (simp add: dispatch_run [OF c sample_prepare] transport_refused_def receive_nil)
  moreover have "\<exists>u. Request_url sample_deps ?a ''GET'' ''/api/v1/ping'' [] = Some u"
    by (simp add: Request_url_def sample_resolve)
  moreover have "\<exists>u. SignedRequest_url sample_deps ?a ''/api/v3/account'' [] = Some u"
    by (simp add: SignedRequest_url_def sample_resolve Let_def)
  ultimately show ?thesis
    by (auto simp: Request_def SignedRequest_def)
qed

text \<open>
  C5. The claim is that a body that cannot be decoded gives a decode error. On status
  200 it does (\<open>receive_200\<close>). On any other status the decoder's error is assigned
  to \<^verbatim>\<open>err\<close> and never read: with a 502 answer whose body is HTML the decoder fails,
  and both calls return \<^verbatim>\<open>errors.New("")\<close>, not the decoder's error.
\<close>

theorem decode_error_dropped:
  "snd (Decode_binanceError sample_deps ''<html>Bad Gateway</html>'' \<lparr>Code = 0, Msg = []\<rparr>)
     = Some ''invalid character''
   \<and> Request sample_deps (demo_api\<lparr>HTTPClient := Some transport_502\<rparr>) ''GET''
      ''/api/v1/ping'' [] None = Return (Some (errors_New [])) None
   \<and> SignedRequest sample_deps (demo_api\<lparr>HTTPClient := Some transport_502\<rparr>) ''GET''
      ''/api/v3/account'' [] None = Return (Some (errors_New [])) None"
proof -
  let ?a = "demo_api\<lparr>HTTPClient := Some transport_502\<rparr>"
  have c: "HTTPClient ?a = Some transport_502" by simp
  have d: "Decode_binanceError sample_deps ''<html>Bad Gateway</html>'' \<lparr>Code = 0, Msg = []\<rparr>
             = (\<lparr>Code = 0, Msg = []\<rparr>, Some ''invalid character'')"
    by (simp add: sample_deps_fields sample_Decode_binanceError_def)
  have "\<And>u. dispatch sample_deps ?a ''GET'' (Some u) (None :: bytes option)
          = Return (Some (errors_New [])) None"
    by (simp add: dispatch_run [OF c sample_prepare] transport_502_def receive_non_200 d)
  moreover have "\<exists>u. Request_url sample_deps ?a ''GET'' ''/api/v1/ping'' [] = Some u"
    by (simp add: Request_url_def sample_resolve)
  moreover have "\<exists>u. SignedRequest_url sample_deps ?a ''/api/v3/account'' [] = Some u"
    by (simp add: SignedRequest_url_def sample_resolve Let_def)
  ultimately show ?thesis
    using d by (auto simp: Request_def SignedRequest_def)
qed

section \<open>The stream subscriber\<close>

subsection \<open>The read loop\<close>

lemma connect_fields [simp]:
  "reconnects (connect dial ep s) = reconnects s"
  "calls (connect dial ep s) = calls s"
  "closes (connect dial ep s) = closes s"
  "dialed (connect dial ep s) = dialed s @ [stream_url ep]"
  by (simp_all add: connect_def Let_def)

lemma connect_status:
  "status (connect dial ep s) =
     (if dial (stream_url ep) (length (dialed s)) then status s else Fatal)"
  by (simp add: connect_def Let_def)

lemma read_loop_mono: "reconnects s \<le> reconnects (read_loop a dial ep h rs s)"
proof (induction rs arbitrary: s)
  case Nil
  show ?case by simp
next
  case (Cons r rs)
  show ?case
  proof (cases r)
    case (Message m)
    then show ?thesis using Cons [of "s\<lparr>calls := calls s @ [h m]\<rparr>"] by simp
  next
    case ReadError
    let ?s3 = "connect dial ep (s\<lparr>closes := closes s + 1, reconnects := reconnects s + 1\<rparr>)"
    from Cons [of ?s3] ReadError show ?thesis by (simp add: Let_def)
  qed
qed

lemma read_loop_bound:
  "reconnects s \<le> ReconnectLimit \<Longrightarrow> reconnects (read_loop a dial ep h rs s) \<le> ReconnectLimit"
proof (induction rs arbitrary: s)
  case Nil
  then show ?case by simp
next
  case (Cons r rs)
  show ?case
  proof (cases r)
    case (Message m)
    then show ?thesis using Cons.IH [of "s\<lparr>calls := calls s @ [h m]\<rparr>"] Cons.prems by simp
  next
    case ReadError
    let ?s3 = "connect dial ep (s\<lparr>closes := closes s + 1, reconnects := reconnects s + 1\<rparr>)"
    from Cons.IH [of ?s3] Cons.prems ReadError show ?thesis by (simp add: Let_def)
  qed
qed

lemma read_loop_dials:
  "length (dialed s) = Suc (reconnects s) \<Longrightarrow>
   length (dialed (read_loop a dial ep h rs s)) = Suc (reconnects (read_loop a dial ep h rs s))"
proof (induction rs arbitrary: s)
  case Nil
  then show ?case by simp
next
  case (Cons r rs)
  show ?case
  proof (cases r)
    case (Message m)
    then show ?thesis using Cons.IH [of "s\<lparr>calls := calls s @ [h m]\<rparr>"] Cons.prems by simp
  next
    case ReadError
    let ?s3 = "connect dial ep (s\<lparr>closes := closes s + 1, reconnects := reconnects s + 1\<rparr>)"
    from Cons.IH [of ?s3] Cons.prems ReadError show ?thesis by (simp add: Let_def)
  qed
qed

lemma read_loop_dialed:
  "set (dialed s) = {stream_url ep} \<Longrightarrow>
   set (dialed (read_loop a dial ep h rs s)) = {stream_url ep}"
proof (induction rs arbitrary: s)
  case Nil
  then show ?case by simp
next
  case (Cons r rs)
  show ?case
  proof (cases r)
    case (Message m)
    then show ?thesis using Cons.IH [of "s\<lparr>calls := calls s @ [h m]\<rparr>"] Cons.prems by simp
  next
    case ReadError
    let ?s3 = "connect dial ep (s\<lparr>closes := closes s + 1, reconnects := reconnects s + 1\<rparr>)"
    from Cons.IH [of ?s3] Cons.prems ReadError show ?thesis by (simp add: Let_def)
  qed
qed

text \<open>A trace in two parts: the second part is read only if the first leaves the loop running.\<close>

lemma read_loop_append:
  "status s = Open \<Longrightarrow>
   read_loop a dial ep h (rs @ rest) s =
     (if status (read_loop a dial ep h rs s) = Open
      then read_loop a dial ep h rest (read_loop a dial ep h rs s)
      else read_loop a dial ep h rs s)"
proof (induction rs arbitrary: s)
  case Nil
  then show ?case by simp
next
  case (Cons r rs)
  show ?case
  proof (cases r)
    case (Message m)
    then show ?thesis using Cons.IH [of "s\<lparr>calls := calls s @ [h m]\<rparr>"] Cons.prems by simp
  next
    case ReadError
    let ?s3 = "connect dial ep (s\<lparr>closes := closes s + 1, reconnects := reconnects s + 1\<rparr>)"
    from Cons.IH [of ?s3] Cons.prems ReadError show ?thesis
      by (simp add: Let_def connect_status)
  qed
qed

lemma read_loop_messages:
  "read_loop a dial ep h (map Message ms @ rs) s =
     read_loop a dial ep h rs (s\<lparr>calls := calls s @ map h ms\<rparr>)"
  by (induction ms arbitrary: s) simp_all

lemma read_loop_only_messages:
  "read_loop a dial ep h (map Message ms) s = s\<lparr>calls := calls s @ map h ms\<rparr>"
  using read_loop_messages [of a dial ep h ms "[]" s] by simp

text \<open>With every dial answered, more failed reads than the budget close the session.\<close>

lemma read_loop_exhaust:
  "AutoReconnect a \<Longrightarrow> (\<forall>u n. dial u n) \<Longrightarrow> status s = Open \<Longrightarrow>
   reconnects s \<le> ReconnectLimit \<Longrightarrow> ReconnectLimit - reconnects s < read_errors rs \<Longrightarrow>
   status (read_loop a dial ep h rs s) = Closed
   \<and> reconnects (read_loop a dial ep h rs s) = ReconnectLimit"
proof (induction rs arbitrary: s)
  case Nil
  then show ?case by (simp add: read_errors_def)
next
  case (Cons r rs)
  show ?case
  proof (cases r)
    case (Message m)
    then show ?thesis using Cons.IH [of "s\<lparr>calls := calls s @ [h m]\<rparr>"] Cons.prems
      by (simp add: read_errors_def)
  next
    case ReadError
    let ?s3 = "connect dial ep (s\<lparr>closes := closes s + 1, reconnects := reconnects s + 1\<rparr>)"
    show ?thesis
    proof (cases "reconnects s < ReconnectLimit")
      case True
      have st: "status ?s3 = Open"
        using Cons.prems(2,3) by (simp add: connect_status)
      have le: "reconnects ?s3 \<le> ReconnectLimit"
        using True by simp
      have cnt: "ReconnectLimit - reconnects ?s3 < read_errors rs"
        using Cons.prems(5) ReadError True by (simp add: read_errors_def)
      have "status (read_loop a dial ep h rs ?s3) = Closed \<and>
            reconnects (read_loop a dial ep h rs ?s3) = ReconnectLimit"
        by (rule Cons.IH [OF Cons.prems(1) Cons.prems(2) st le cnt])
      moreover have "read_loop a dial ep h (r # rs) s = read_loop a dial ep h rs ?s3"
        using ReadError True Cons.prems(1) st by (simp add: Let_def)
      ultimately show ?thesis by simp
    next
      case False
      then show ?thesis using Cons.prems ReadError by simp
    qed
  qed
qed

lemma Stream_unfold:
  "Stream a dial ep h rs =
     (if dial (stream_url ep) 0
      then read_loop a dial ep h rs
             \<lparr>reconnects = 0, dialed = [stream_url ep], closes = 0, calls = [], status = Open\<rparr>
      else \<lparr>reconnects = 0, dialed = [stream_url ep], closes = 0, calls = [], status = Fatal\<rparr>)"
  by (simp add: Stream_def connect_def Let_def)

lemma Stream_dialed: "set (dialed (Stream a dial ep h rs)) = {stream_url ep}"
  using read_loop_dialed
    [of "\<lparr>reconnects = 0, dialed = [stream_url ep], closes = 0, calls = [], status = Open\<rparr>"
        ep a dial h rs]
  by (simp add: Stream_unfold)

subsection \<open>The reconnect budget\<close>

text \<open>
  C2. In every stream session the reconnect counter starts at 0; it never decreases as
  the session goes on (a longer trace of reads never shows a smaller counter, so no
  successful reconnect resets it); it never exceeds the limit of 10, and the dials of a
  session are the first one and one for each count, so there is no eleventh reconnect; a
  failed read with the counter at the limit (or with auto-reconnect off) closes the
  session; when every dial succeeds and more than ten reads fail, the session is closed
  with the counter at 10 after eleven dials; and a closed session is terminal: nothing
  read later changes it.
\<close>

theorem Stream_reconnect_counter:
  "reconnects (Stream a dial ep h []) = 0
   \<and> reconnects (Stream a dial ep h rs) \<le> reconnects (Stream a dial ep h (rs @ rest))
   \<and> reconnects (Stream a dial ep h rs) \<le> ReconnectLimit
   \<and> length (dialed (Stream a dial ep h rs)) = Suc (reconnects (Stream a dial ep h rs))
   \<and> (\<not> (AutoReconnect a \<and> reconnects s < ReconnectLimit) \<longrightarrow>
        read_loop a dial ep h (ReadError # rs) s = s\<lparr>closes := closes s + 1, status := Closed\<rparr>)
   \<and> (AutoReconnect a \<and> (\<forall>u n. dial u n) \<and> ReconnectLimit < read_errors rs \<longrightarrow>
        status (Stream a dial ep h rs) = Closed
        \<and> reconnects (Stream a dial ep h rs) = ReconnectLimit
        \<and> length (dialed (Stream a dial ep h rs)) = Suc ReconnectLimit)
   \<and> (status (Stream a dial ep h rs) = Closed \<longrightarrow>
        Stream a dial ep h (rs @ rest) = Stream a dial ep h rs)"
proof -
  let ?s0 = "\<lparr>reconnects = 0, dialed = [stream_url ep], closes = 0, calls = ([]::'a list),
              status = Open\<rparr>"
  have c1: "reconnects (Stream a dial ep h []) = 0"
    by (simp add: Stream_unfold)
  have app: "read_loop a dial ep h (rs @ rest) ?s0 =
     (if status (read_loop a dial ep h rs ?s0) = Open
      then read_loop a dial ep h rest (read_loop a dial ep h rs ?s0)
      else read_loop a dial ep h rs ?s0)"
    by (rule read_loop_append) simp
  have c2: "reconnects (Stream a dial ep h rs) \<le> reconnects (Stream a dial ep h (rs @ rest))"
    using read_loop_mono [of "read_loop a dial ep h rs ?s0" a dial ep h rest]
    by (simp add: Stream_unfold app)
  have c3: "reconnects (Stream a dial ep h rs) \<le> ReconnectLimit"
    using read_loop_bound [of ?s0 a dial ep h rs] by (simp add: Stream_unfold)
  have c4: "length (dialed (Stream a dial ep h rs)) = Suc (reconnects (Stream a dial ep h rs))"
    using read_loop_dials [of ?s0 a dial ep h rs] by (simp add: Stream_unfold)
  have c5: "\<not> (AutoReconnect a \<and> reconnects s < ReconnectLimit) \<longrightarrow>
        read_loop a dial ep h (ReadError # rs) s = s\<lparr>closes := closes s + 1, status := Closed\<rparr>"
    by auto
  have c6: "AutoReconnect a \<and> (\<forall>u n. dial u n) \<and> ReconnectLimit < read_errors rs \<longrightarrow>
        status (Stream a dial ep h rs) = Closed
        \<and> reconnects (Stream a dial ep h rs) = ReconnectLimit
        \<and> length (dialed (Stream a dial ep h rs)) = Suc ReconnectLimit"
  proof
    assume h: "AutoReconnect a \<and> (\<forall>u n. dial u n) \<and> ReconnectLimit < read_errors rs"
    then have "status (read_loop a dial ep h rs ?s0) = Closed \<and>
               reconnects (read_loop a dial ep h rs ?s0) = ReconnectLimit"
      by (intro read_loop_exhaust) simp_all
    moreover have "Stream a dial ep h rs = read_loop a dial ep h rs ?s0"
      using h by (simp add: Stream_unfold)
    ultimately show "status (Stream a dial ep h rs) = Closed
        \<and> reconnects (Stream a dial ep h rs) = ReconnectLimit
        \<and> length (dialed (Stream a dial ep h rs)) = Suc ReconnectLimit"
      using c4 by simp
  qed
  have c7: "status (Stream a dial ep h rs) = Closed \<longrightarrow>
        Stream a dial ep h (rs @ rest) = Stream a dial ep h rs"
    by (simp add: Stream_unfold app)
  from c1 c2 c3 c4 c5 c6 c7 show ?thesis by blast
qed

text \<open>
  Eleven failed reads, every dial answered: the session is closed at a counter of 10
  after eleven dials, and a message and a failure read later change nothing.
\<close>

theorem Stream_reconnect_counter_witness:
  "status (Stream demo_api (\<lambda>u n. True) ''btcusdt@depth'' id (replicate 11 ReadError)) = Closed
   \<and> reconnects (Stream demo_api (\<lambda>u n. True) ''btcusdt@depth'' id (replicate 11 ReadError)) = 10
   \<and> length (dialed (Stream demo_api (\<lambda>u n. True) ''btcusdt@depth'' id (replicate 11 ReadError)))
       = 11
   \<and> Stream demo_api (\<lambda>u n. True) ''btcusdt@depth'' id
         (replicate 11 ReadError @ [Message ''x'', ReadError])
       = Stream demo_api (\<lambda>u n. True) ''btcusdt@depth'' id (replicate 11 ReadError)"
proof -
  have a: "AutoReconnect demo_api" by (simp add: demo_api_def New_def)
  have e: "ReconnectLimit < read_errors (replicate 11 ReadError)"
    by (simp add: ReconnectLimit_def read_errors_def)
  show ?thesis
    using Stream_reconnect_counter [of demo_api "\<lambda>u n. True" "''btcusdt@depth''" id
        "replicate 11 ReadError" "[Message ''x'', ReadError]"] a e
    by (simp add: ReconnectLimit_def)
qed

text \<open>
  C7. With auto-reconnect disabled, the first failed read ends the session for good: the
  session is closed, only the first dial was ever made, the counter is 0, and the
  handler calls are those of the messages read before the failure, whatever the
  transport would have answered afterwards.
\<close>

theorem Stream_no_reconnect:
  "\<not> AutoReconnect a \<Longrightarrow> dial (stream_url ep) 0 \<Longrightarrow>
   Stream a dial ep h (map Message ms @ ReadError # rest) =
     \<lparr>reconnects = 0, dialed = [stream_url ep], closes = 1, calls = map h ms, status = Closed\<rparr>"
  by (simp add: Stream_unfold read_loop_messages)

theorem Stream_no_reconnect_witness:
  "Stream (demo_api\<lparr>AutoReconnect := False\<rparr>) (\<lambda>u n. True) ''btcusdt@depth'' id
     (map Message [''m1'', ''m2''] @ ReadError # [Message ''m3'', ReadError, Message ''m4''])
   = \<lparr>reconnects = 0, dialed = [stream_url ''btcusdt@depth''], closes = 1,
      calls = [''m1'', ''m2''], status = Closed\<rparr>"
  using Stream_no_reconnect [of "demo_api\<lparr>AutoReconnect := False\<rparr>" "\<lambda>u n. True"
      "''btcusdt@depth''" id "[''m1'', ''m2'']" "[Message ''m3'', ReadError, Message ''m4'']"]
  by simp

subsection \<open>Depth and kline subscriptions\<close>

lemma ToLower_BTCUSDT: "ToLower ul ''BTCUSDT'' = ''btcusdt''"
proof -
  have "isASCII ''BTCUSDT''" by code_simp
  moreover have "map lowerASCII ''BTCUSDT'' = ''btcusdt''" by code_simp
  ultimately show ?thesis by (simp add: ToLower_def)
qed

text \<open>
  C9. Every dial of a depth subscription, the first one and each reconnect, goes to the
  topic \<open>ToLower symbol @ ''@depth''\<close>, and every dial of a kline subscription to
  \<open>ToLower symbol @ ''@kline_'' @ interval\<close>; the symbol \<open>BTCUSDT\<close> gives the topics
  \<open>btcusdt@depth\<close> and, at the interval \<open>1m\<close>, \<open>btcusdt@kline_1m\<close>.
\<close>

theorem subscription_topics:
  "set (dialed (Depth a dial ul U z p rs))
     = {''wss://stream.binance.com:9443/ws/'' @ ToLower ul (depth_Symbol p) @ ''@depth''}
   \<and> set (dialed (Kline a dial ul U' z' k rs))
     = {''wss://stream.binance.com:9443/ws/'' @ ToLower ul (kline_Symbol k) @ ''@kline_''
          @ kline_Interval k}
   \<and> Depth_endpoint ul \<lparr>depth_Symbol = ''BTCUSDT''\<rparr> = ''btcusdt@depth''
   \<and> Kline_endpoint ul \<lparr>kline_Symbol = ''BTCUSDT'', kline_Interval = ''1m''\<rparr>
       = ''btcusdt@kline_1m''"
  by (simp add: Depth_def Kline_def Stream_dialed stream_url_def Depth_endpoint_def
      Kline_endpoint_def ToLower_BTCUSDT)

text \<open>
  C10, as amended. For every inbound message, whether or not it deserializes, the
  wrapper calls the caller's typed handler exactly once, with the shape as the decoder
  left it: the zero value when the decoder stored nothing; the decoder's error goes
  nowhere. So the typed calls of a depth or kline session are one for each message read.
\<close>

theorem typed_handler_once:
  "typed_handler Unmarshal zero d = [fst (Unmarshal d zero)]
   \<and> length (typed_handler Unmarshal zero d) = 1
   \<and> (fst (Unmarshal d zero) = zero \<longrightarrow> typed_handler Unmarshal zero d = [zero])
   \<and> (dial (stream_url (Depth_endpoint ul p)) 0 \<longrightarrow>
        calls (Depth a dial ul Unmarshal zero p (map Message ms))
          = map (\<lambda>d. [fst (Unmarshal d zero)]) ms)
   \<and> (dial (stream_url (Kline_endpoint ul k)) 0 \<longrightarrow>
        calls (Kline a dial ul Unmarshal zero k (map Message ms))
          = map (\<lambda>d. [fst (Unmarshal d zero)]) ms)"
proof -
  have h: "typed_handler Unmarshal zero = (\<lambda>d. [fst (Unmarshal d zero)])"
    by (rule ext) (simp add: typed_handler_def split: prod.split)
  have s: "\<And>ep hh. dial (stream_url ep) 0 \<Longrightarrow>
        calls (Stream a dial ep hh (map Message ms)) = map hh ms"
    by (simp add: Stream_unfold read_loop_only_messages)
  show ?thesis
    by (simp add: h Depth_def Kline_def s)
qed

text \<open>
  A message that is not JSON and a well-formed one: one typed call each, the first with
  the zero shape.
\<close>

theorem typed_handler_once_witness:
  \<open>calls (Depth demo_api (\<lambda>u n. True) id sample_Unmarshal \<lparr>EventType = [], EventTime = 0\<rparr>
            \<lparr>depth_Symbol = ''BTCUSDT''\<rparr>
            (map Message [''not json'', ''{"e":"depthUpdate","E":1}'']))
     = [[\<lparr>EventType = [], EventTime = 0\<rparr>], [\<lparr>EventType = ''depthUpdate'', EventTime = 1\<rparr>]]
   \<and> calls (Kline demo_api (\<lambda>u n. True) id sample_Unmarshal \<lparr>EventType = [], EventTime = 0\<rparr>
            \<lparr>kline_Symbol = ''BTCUSDT'', kline_Interval = ''1m''\<rparr>
            (map Message [''not json'']))
     = [[\<lparr>EventType = [], EventTime = 0\<rparr>]]\<close>
  using typed_handler_once [of sample_Unmarshal "\<lparr>EventType = [], EventTime = 0\<rparr>" "[]"
      "\<lambda>u n. True" id "\<lparr>depth_Symbol = ''BTCUSDT''\<rparr>" demo_api
      \<open>[''not json'', ''{"e":"depthUpdate","E":1}'']\<close>
      "\<lparr>kline_Symbol = ''BTCUSDT'', kline_Interval = ''1m''\<rparr>"]
    typed_handler_once [of sample_Unmarshal "\<lparr>EventType = [], EventTime = 0\<rparr>" "[]"
      "\<lambda>u n. True" id "\<lparr>depth_Symbol = ''BTCUSDT''\<rparr>" demo_api
      \<open>[''not json'']\<close>
      "\<lparr>kline_Symbol = ''BTCUSDT'', kline_Interval = ''1m''\<rparr>"]
  by (simp add: sample_Unmarshal_def)

text \<open>
  The claim as first stated fails: a message with a field of the wrong type does not
  deserialize, and the typed handler is called with a shape that is not the zero value.
\<close>

theorem typed_handler_zero_counterexample:
  \<open>snd (sample_Unmarshal ''{"e":"depthUpdate","E":"x"}'' \<lparr>EventType = [], EventTime = 0\<rparr>) \<noteq> None
   \<and> typed_handler sample_Unmarshal \<lparr>EventType = [], EventTime = 0\<rparr>
         ''{"e":"depthUpdate","E":"x"}''
       \<noteq> [\<lparr>EventType = [], EventTime = 0\<rparr>]\<close>
  by (simp add: typed_handler_def sample_Unmarshal_def)

end
